theory Spec2Isabelle
  imports Main "HOL-Library.Sublist" "HOL-Library.AList"
begin

section \<open>Python values and exceptions\<close>

text \<open>
  Every exception the modelled code can raise is a value of \<open>error\<close>; a call that
  raises returns \<open>Inl e\<close> together with the world as it was when the exception left
  the call.  \<open>PyException msg\<close> is a bare \<^verbatim>\<open>raise Exception(msg)\<close>, \<open>TyperExit c\<close> is
  \<^verbatim>\<open>raise typer.Exit(c)\<close>.
\<close>

datatype error =
    FileNotFoundError
  | FileExistsError
  | IsADirectoryError
  | NotADirectoryError
  | OSError
  | ShutilError
  | IndexError
  | TypeError
  | ValueError
  | CalledProcessError
  | TOMLDecodeError
  | PyException string
  | TyperExit int

subsection \<open>\<^verbatim>\<open>str.replace\<close>\<close>

text \<open>
  \<^verbatim>\<open>s.replace(old, new)\<close>: the occurrences of \<open>old\<close> are found from left to right and do
  not overlap; the scan resumes behind a replaced occurrence.  With an empty \<open>old\<close>
  Python puts \<open>new\<close> before every character and at the end.
\<close>

function replace :: "string \<Rightarrow> string \<Rightarrow> string \<Rightarrow> string" where
  "replace old new s =
     (if old = [] then new @ concat (map (\<lambda>c. c # new) s)
      else if s = [] then []
      else if prefix old s then new @ replace old new (drop (length old) s)
      else hd s # replace old new (tl s))"
  by pat_completeness auto
termination
  by (relation "measure (\<lambda>(old, new, s). length s)") auto

declare replace.simps [simp del]

section \<open>Paths and the file system\<close>

text \<open>
  A \<^verbatim>\<open>pathlib.Path\<close> is the list of its components below the working directory, which
  is the root of the modelled tree: \<^verbatim>\<open>Path("a/b")\<close> is \<open>[''a'', ''b'']\<close> and
  \<^verbatim>\<open>Path(".")\<close> is \<open>[]\<close>.  As in pathlib the parent of \<^verbatim>\<open>Path(".")\<close> is itself, its
  name is empty, and joining the empty string changes nothing.
\<close>

type_synonym path = "string list"

definition parent :: "path \<Rightarrow> path" where
  "parent p = butlast p"

definition name :: "path \<Rightarrow> string" where
  "name p = (if p = [] then [] else last p)"

definition joinpath :: "path \<Rightarrow> string \<Rightarrow> path" where
  "joinpath p n = (if n = [] then p else p @ [n])"

text \<open>
  The file system is an association list from paths to nodes; its order is the order in
  which a directory scan (\<^verbatim>\<open>glob\<close>, \<^verbatim>\<open>rglob\<close>) yields the entries.  File contents are
  strings: the text Python reads and writes, or, where the newline translation of text
  mode is written out further down (the bundlers' removal of the readme setting), the
  bytes on disk.
\<close>

datatype node = File string | Dir

type_synonym fs = "(path \<times> node) list"

definition node_at :: "fs \<Rightarrow> path \<Rightarrow> node option" where
  "node_at t p = (if p = [] then Some Dir else map_of t p)"

definition path_exists :: "fs \<Rightarrow> path \<Rightarrow> bool" where
  "path_exists t p = (node_at t p \<noteq> None)"

definition is_dir :: "fs \<Rightarrow> path \<Rightarrow> bool" where
  "is_dir t p = (node_at t p = Some Dir)"

definition read_text :: "fs \<Rightarrow> path \<Rightarrow> error + string" where
  "read_text t p =
     (case node_at t p of
        None \<Rightarrow> Inl FileNotFoundError
      | Some Dir \<Rightarrow> Inl IsADirectoryError
      | Some (File s) \<Rightarrow> Inr s)"

text \<open>Opening for writing truncates an existing file and creates a missing one in an
  existing directory.\<close>

definition write_text :: "fs \<Rightarrow> path \<Rightarrow> string \<Rightarrow> error + fs" where
  "write_text t p s =
     (case node_at t p of
        Some Dir \<Rightarrow> Inl IsADirectoryError
      | Some (File old) \<Rightarrow> Inr (AList.update p (File s) t)
      | None \<Rightarrow>
          (case node_at t (parent p) of
             Some Dir \<Rightarrow> Inr (AList.update p (File s) t)
           | Some (File x) \<Rightarrow> Inl NotADirectoryError
           | None \<Rightarrow> Inl FileNotFoundError))"

text \<open>\<^verbatim>\<open>Path.mkdir(exist_ok=True)\<close>, without \<^verbatim>\<open>parents\<close>.\<close>

definition mkdir :: "fs \<Rightarrow> path \<Rightarrow> error + fs" where
  "mkdir t p =
     (case node_at t p of
        Some Dir \<Rightarrow> Inr t
      | Some (File x) \<Rightarrow> Inl FileExistsError
      | None \<Rightarrow>
          (case node_at t (parent p) of
             Some Dir \<Rightarrow> Inr (AList.update p Dir t)
           | Some (File x) \<Rightarrow> Inl NotADirectoryError
           | None \<Rightarrow> Inl FileNotFoundError))"

text \<open>\<^verbatim>\<open>Path.unlink(missing_ok=True)\<close>.\<close>

definition unlink :: "fs \<Rightarrow> path \<Rightarrow> error + fs" where
  "unlink t p =
     (case node_at t p of
        None \<Rightarrow> Inr t
      | Some (File x) \<Rightarrow> Inr (AList.delete p t)
      | Some Dir \<Rightarrow> Inl IsADirectoryError)"

definition children :: "fs \<Rightarrow> path \<Rightarrow> path list" where
  "children t d = filter (\<lambda>k. k \<noteq> [] \<and> parent k = d) (remdups (map fst t))"

definition rmdir :: "fs \<Rightarrow> path \<Rightarrow> error + fs" where
  "rmdir t p =
     (if p \<noteq> [] \<and> node_at t p = Some Dir \<and> filter (strict_prefix p) (map fst t) = []
      then Inr (AList.delete p t) else Inl OSError)"

text \<open>\<^verbatim>\<open>with suppress(Exception): p.rmdir()\<close>.\<close>

definition rmdir_suppressed :: "fs \<Rightarrow> path \<Rightarrow> fs" where
  "rmdir_suppressed t p = (case rmdir t p of Inl e \<Rightarrow> t | Inr t' \<Rightarrow> t')"

definition rmtree :: "fs \<Rightarrow> path \<Rightarrow> error + fs" where
  "rmtree t p =
     (case node_at t p of
        None \<Rightarrow> Inl FileNotFoundError
      | Some (File x) \<Rightarrow> Inl NotADirectoryError
      | Some Dir \<Rightarrow> Inr (filter (\<lambda>(k, v). \<not> prefix p k) t))"


text \<open>\<^verbatim>\<open>os.makedirs\<close> as \<^verbatim>\<open>shutil.copytree\<close> calls it: every missing ancestor is created.\<close>

definition makedirs :: "fs \<Rightarrow> path \<Rightarrow> error + fs" where
  "makedirs t p =
     fold (\<lambda>d r. case r of
                    Inl e \<Rightarrow> Inl e
                  | Inr t' \<Rightarrow>
                      (case node_at t' d of
                         Some Dir \<Rightarrow> Inr t'
                       | Some (File x) \<Rightarrow> Inl FileExistsError
                       | None \<Rightarrow> Inr (AList.update d Dir t')))
          (prefixes p) (Inr t)"

definition move_tree :: "fs \<Rightarrow> path \<Rightarrow> path \<Rightarrow> fs" where
  "move_tree t src dst =
     filter (\<lambda>(k, v). \<not> prefix src k \<and> \<not> prefix dst k) t
     @ map (\<lambda>(k, v). (dst @ drop (length src) k, v)) (filter (\<lambda>(k, v). prefix src k) t)"

text \<open>
  \<^verbatim>\<open>shutil.move(src, dst)\<close>.  An existing directory \<open>dst\<close> receives \<open>src\<close> under its own
  name, unless both are the same directory; a name already taken there is an error.  A
  file is renamed (its target directory must exist).  A directory cannot be moved into
  itself or onto an existing file; when the rename fails for a missing target directory
  the fallback \<^verbatim>\<open>copytree\<close> creates it.
\<close>

definition shutil_move :: "fs \<Rightarrow> path \<Rightarrow> path \<Rightarrow> error + fs" where
  "shutil_move t src dst =
     (if is_dir t dst \<and> src = dst then Inr t
      else
        let real_dst = (if is_dir t dst then joinpath dst (name src) else dst) in
        if is_dir t dst \<and> path_exists t real_dst then Inl ShutilError
        else
          (case node_at t src of
             None \<Rightarrow> Inl FileNotFoundError
           | Some (File s) \<Rightarrow>
               (case node_at t (parent real_dst) of
                  Some Dir \<Rightarrow> Inr (AList.update real_dst (File s) (AList.delete src t))
                | Some (File x) \<Rightarrow> Inl NotADirectoryError
                | None \<Rightarrow> Inl FileNotFoundError)
           | Some Dir \<Rightarrow>
               if prefix src real_dst then Inl ShutilError
               else if path_exists t real_dst then Inl FileExistsError
               else
                 (case makedirs t (parent real_dst) of
                    Inl e \<Rightarrow> Inl e
                  | Inr t' \<Rightarrow> Inr (move_tree t' src real_dst))))"

subsection \<open>Globbing\<close>

text \<open>
  \<^verbatim>\<open>fnmatch\<close> on one path component, for patterns made of literal characters and
  \<^verbatim>\<open>*\<close> (the patterns of the code are a \<^verbatim>\<open>*\<close>, a file extension or version, and
  literal text).  pathlib matches hidden names too.
\<close>

fun fnmatch :: "string \<Rightarrow> string \<Rightarrow> bool" where
  "fnmatch [] s = (s = [])"
| "fnmatch (c # p) [] = (c = CHR ''*'' \<and> fnmatch p [])"
| "fnmatch (c # p) (x # s) =
     (if c = CHR ''*'' then fnmatch p (x # s) \<or> fnmatch (c # p) s
      else c = x \<and> fnmatch p s)"

definition glob :: "fs \<Rightarrow> path \<Rightarrow> string \<Rightarrow> path list" where
  "glob t d pat = filter (\<lambda>k. fnmatch pat (name k)) (children t d)"

definition rglob :: "fs \<Rightarrow> path \<Rightarrow> string \<Rightarrow> path list" where
  "rglob t d pat =
     filter (\<lambda>k. strict_prefix d k \<and> fnmatch pat (name k)) (remdups (map fst t))"

text \<open>\<^verbatim>\<open>list(...)[-1]\<close>.\<close>

definition last_item :: "'a list \<Rightarrow> error + 'a" where
  "last_item xs = (if xs = [] then Inl IndexError else Inr (last xs))"

section \<open>The world: files, environment, subprocesses, console\<close>

text \<open>
  \<open>procs\<close> is the list of the commands handed to \<^verbatim>\<open>subprocess.run\<close>, each with its
  working directory; \<open>console\<close> is what the command-line interface printed.
\<close>

record world =
  files :: fs
  environ :: "string \<rightharpoonup> string"
  procs :: "(string list \<times> path) list"
  console :: "string list"

type_synonym 'a io = "world \<Rightarrow> (error + 'a) \<times> world"

definition ret :: "'a \<Rightarrow> 'a io" where
  "ret x = (\<lambda>w. (Inr x, w))"

definition raise :: "error \<Rightarrow> 'a io" where
  "raise e = (\<lambda>w. (Inl e, w))"

definition and_then :: "'a io \<Rightarrow> ('a \<Rightarrow> 'b io) \<Rightarrow> 'b io" where
  "and_then m f = (\<lambda>w. case m w of (Inl e, w') \<Rightarrow> (Inl e, w') | (Inr x, w') \<Rightarrow> f x w')"

definition fs_do :: "(fs \<Rightarrow> error + fs) \<Rightarrow> unit io" where
  "fs_do f = (\<lambda>w. case f (files w) of
                     Inl e \<Rightarrow> (Inl e, w)
                   | Inr t \<Rightarrow> (Inr (), w\<lparr>files := t\<rparr>))"

definition fs_get :: "(fs \<Rightarrow> error + 'a) \<Rightarrow> 'a io" where
  "fs_get f = (\<lambda>w. case f (files w) of Inl e \<Rightarrow> (Inl e, w) | Inr x \<Rightarrow> (Inr x, w))"

definition say :: "string \<Rightarrow> world \<Rightarrow> world" where
  "say msg w = w\<lparr>console := console w @ [msg]\<rparr>"

text \<open>
  What lies outside the repository is a parameter: the programs a subprocess runs, the
  interpreter, the package's version, constants and template files, and the library
  functions \<^verbatim>\<open>tomllib.load\<close>, \<^verbatim>\<open>string.Template.safe_substitute\<close>, \<^verbatim>\<open>repr\<close>,
  \<^verbatim>\<open>datetime.fromisoformat\<close> and \<^verbatim>\<open>datetime.now\<close>.
\<close>

datatype proc_result = Returned int | NoSuchProgram

datatype 'a toml_result = TomlDecodeError | TomlKeyError | TomlTypeError | TomlValue 'a

text \<open>A \<^verbatim>\<open>datetime\<close> is naive or carries an offset; the number is its time in
  microseconds (for an aware one, of the instant it denotes).\<close>

datatype datetime = Naive int | Aware int

record system =
  run_process :: "string list \<Rightarrow> path \<Rightarrow> fs \<Rightarrow> proc_result \<times> fs"
  sys_executable :: string
  platform_system :: string
  EXTENSION_COMPILED_MODULE :: string
  version :: string
  repr :: "string \<Rightarrow> string"
  safe_substitute :: "string \<Rightarrow> (string \<times> string) list \<Rightarrow> string"
  setup_py_template :: string
  init_py_template :: string
  runtime_pyi_template :: string
  pyproject_toml_template :: string
  pyinstaller_spec_template :: string
  toml_poetry_version :: "string \<Rightarrow> string toml_result"
  toml_build_backend :: "string \<Rightarrow> string toml_result"
  fromisoformat :: "string \<Rightarrow> datetime option"
  now_utc :: int

text \<open>\<^verbatim>\<open>subprocess.run(cmd, cwd=cwd, check=True)\<close>: a program that cannot be started
  raises \<^verbatim>\<open>FileNotFoundError\<close> and changes no file, a non-zero exit status raises
  \<^verbatim>\<open>CalledProcessError\<close>.\<close>

definition subprocess_run :: "system \<Rightarrow> string list \<Rightarrow> path \<Rightarrow> unit io" where
  "subprocess_run sys cmd cwd =
     (\<lambda>w. let (r, t) = run_process sys cmd cwd (files w);
               w' = w\<lparr>files := t, procs := procs w @ [(cmd, cwd)]\<rparr>
           in case r of
                NoSuchProgram \<Rightarrow> (Inl FileNotFoundError, w\<lparr>procs := procs w @ [(cmd, cwd)]\<rparr>)
              | Returned c \<Rightarrow> if c = 0 then (Inr (), w') else (Inl CalledProcessError, w'))"

subsection \<open>Files opened in text mode\<close>

text \<open>
  \<^verbatim>\<open>open(path)\<close> and \<^verbatim>\<open>open(path, "w")\<close> with the default \<^verbatim>\<open>newline=None\<close>: a read turns
  every pair CR LF and every lone CR into LF, a write turns every LF into
  \<^verbatim>\<open>os.linesep\<close>, which is CR LF on Windows and LF elsewhere.  The bytes of the
  file are taken as its characters one to one (the text looked for is ASCII); a file
  that the locale's encoding cannot decode is not modelled.
\<close>

fun universal_newlines :: "string \<Rightarrow> string" where
  "universal_newlines [] = []"
| "universal_newlines [c] = [if c = CHR 0x0D then CHR 0x0A else c]"
| "universal_newlines (c # d # cs) =
     (if c = CHR 0x0D
      then CHR 0x0A # (if d = CHR 0x0A then universal_newlines cs
                       else universal_newlines (d # cs))
      else c # universal_newlines (d # cs))"

definition linesep :: "system \<Rightarrow> string" where
  "linesep sys =
     (if platform_system sys = ''Windows'' then [CHR 0x0D, CHR 0x0A] else [CHR 0x0A])"

definition write_newlines :: "system \<Rightarrow> string \<Rightarrow> string" where
  "write_newlines sys s = concat (map (\<lambda>c. if c = CHR 0x0A then linesep sys else [c]) s)"

definition read_text_mode :: "fs \<Rightarrow> path \<Rightarrow> error + string" where
  "read_text_mode t p =
     (case read_text t p of Inl e \<Rightarrow> Inl e | Inr bytes \<Rightarrow> Inr (universal_newlines bytes))"

definition write_text_mode :: "system \<Rightarrow> fs \<Rightarrow> path \<Rightarrow> string \<Rightarrow> error + fs" where
  "write_text_mode sys t p s = write_text t p (write_newlines sys s)"

section \<open>Bundlers\<close>

text \<open>
  \<^verbatim>\<open>IBundler\<close>: the two methods the runtime builder calls, as it calls them (module
  path, optional output directory, no keyword arguments).
\<close>

record ibundler =
  create_extension :: "path \<Rightarrow> path option \<Rightarrow> path io"
  create_wheel :: "path \<Rightarrow> path option \<Rightarrow> path option io"

text \<open>The literal text the bundlers delete from \<^verbatim>\<open>pyproject.toml\<close>.\<close>

definition readme_setting :: string where
  \<open>readme_setting = ''readme = "README.md"''\<close>

subsection \<open>\<^verbatim>\<open>bundler/poetry.py\<close>\<close>

definition poetry_remove_readme_before_build :: "system \<Rightarrow> path \<Rightarrow> unit io" where
  "poetry_remove_readme_before_build sys pyproject_path =
     and_then (fs_get (\<lambda>t. read_text_mode t pyproject_path)) (\<lambda>content.
       fs_do (\<lambda>t. write_text_mode sys t pyproject_path (replace readme_setting [] content)))"

text \<open>\<^verbatim>\<open>tomllib.load(f)\<close> and \<^verbatim>\<open>content["tool"]["poetry"]["version"]\<close>; a \<^verbatim>\<open>KeyError\<close> is
  turned into a plain \<^verbatim>\<open>Exception\<close>.\<close>

definition poetry_read_version :: "system \<Rightarrow> path \<Rightarrow> string io" where
  "poetry_read_version sys pyproject =
     and_then (fs_get (\<lambda>t. read_text t pyproject)) (\<lambda>content.
       case toml_poetry_version sys content of
         TomlDecodeError \<Rightarrow> raise TOMLDecodeError
       | TomlKeyError \<Rightarrow> raise (PyException ''Invalid pyproject.toml file, not in poetry format'')
       | TomlTypeError \<Rightarrow> raise TypeError
       | TomlValue v \<Rightarrow> ret v)"

definition building_exe :: "world \<Rightarrow> string" where
  "building_exe w =
     (case environ w ''CODEENIGMA_BUILDING_EXE'' of None \<Rightarrow> ''0'' | Some v \<Rightarrow> v)"

definition poetry_build_wheel :: "system \<Rightarrow> path \<Rightarrow> path option \<Rightarrow> string \<Rightarrow> path option io" where
  "poetry_build_wheel sys module_path output_dir ver =
     and_then (subprocess_run sys [''poetry'', ''build'', ''-f'', ''wheel''] (parent module_path)) (\<lambda>u.
     and_then (fs_get (\<lambda>t. last_item
                 (glob t (joinpath (parent module_path) ''dist'') (''*'' @ ver @ ''*.whl'')))) (\<lambda>wheel_file.
       case output_dir of
         None \<Rightarrow> ret (Some wheel_file)
       | Some od \<Rightarrow>
           and_then (fs_do (\<lambda>t. mkdir t od)) (\<lambda>u.
           and_then (fs_do (\<lambda>t. shutil_move t wheel_file (joinpath od (name wheel_file)))) (\<lambda>u.
             ret (Some (joinpath od (name wheel_file)))))))"

text \<open>The last argument is the keyword argument \<^verbatim>\<open>remove_readme\<close>, \<open>None\<close> when it is
  not passed.  A call in exe-building mode falls off the end of the function and
  returns \<^verbatim>\<open>None\<close>.\<close>

definition poetry_create_wheel ::
    "system \<Rightarrow> path \<Rightarrow> path option \<Rightarrow> bool option \<Rightarrow> path option io" where
  "poetry_create_wheel sys module_path output_dir remove_readme =
     (let pyproject = joinpath (parent module_path) ''pyproject.toml'' in
      and_then (\<lambda>w. if path_exists (files w) pyproject then (Inr (), w)
                     else (Inl FileNotFoundError, w)) (\<lambda>u.
      and_then (poetry_read_version sys pyproject) (\<lambda>ver.
      and_then (if (case remove_readme of None \<Rightarrow> True | Some b \<Rightarrow> b)
                then poetry_remove_readme_before_build sys pyproject else ret ()) (\<lambda>u.
        (\<lambda>w. if building_exe w = ''0''
              then poetry_build_wheel sys module_path output_dir ver w
              else (Inr None, w))))))"

text \<open>The \<^verbatim>\<open>try\<close>/\<^verbatim>\<open>except subprocess.CalledProcessError\<close> around the compile.\<close>

definition poetry_build_ext :: "system \<Rightarrow> path \<Rightarrow> unit io" where
  "poetry_build_ext sys location =
     (\<lambda>w. case subprocess_run sys
                  [''poetry'', ''run'', ''python'', ''setup.py'', ''build_ext'', ''--inplace'']
                  location w of
             (Inr u, w') \<Rightarrow> (Inr u, w')
           | (Inl e, w') \<Rightarrow>
               if e = CalledProcessError
               then subprocess_run sys
                      [sys_executable sys, ''setup.py'', ''build_ext'', ''--inplace''] location w'
               else (Inl e, w'))"

text \<open>The end of \<^verbatim>\<open>create_extension\<close>, the same lines in the Poetry and the UV bundler
  (which differ in the extension they look for).\<close>

definition collect_extension :: "string \<Rightarrow> path \<Rightarrow> path option \<Rightarrow> path io" where
  "collect_extension ext location output_dir =
     and_then (fs_get (\<lambda>t. last_item (glob t location (''*'' @ ext)))) (\<lambda>module_file.
     and_then (fs_do (\<lambda>t. rmtree t (joinpath location ''build''))) (\<lambda>u.
       case output_dir of
         None \<Rightarrow> ret module_file
       | Some od \<Rightarrow>
           and_then (fs_do (\<lambda>t. mkdir t od)) (\<lambda>u.
           and_then (fs_do (\<lambda>t. shutil_move t module_file (joinpath od (name module_file)))) (\<lambda>u.
             ret (joinpath od (name module_file))))))"

definition setup_location :: "fs \<Rightarrow> path \<Rightarrow> path" where
  "setup_location t module_path =
     (if path_exists t (joinpath module_path ''setup.py'') then module_path
      else parent module_path)"

definition poetry_create_extension :: "system \<Rightarrow> path \<Rightarrow> path option \<Rightarrow> path io" where
  "poetry_create_extension sys module_path output_dir =
     (\<lambda>w. let location = setup_location (files w) module_path in
           if \<not> path_exists (files w) (joinpath location ''setup.py'')
           then (Inl FileNotFoundError, w)
           else and_then (poetry_build_ext sys location) (\<lambda>u.
                  collect_extension (EXTENSION_COMPILED_MODULE sys) location output_dir) w)"

definition poetry_bundler :: "system \<Rightarrow> ibundler" where
  "poetry_bundler sys =
     \<lparr>create_extension = poetry_create_extension sys,
      create_wheel = (\<lambda>module_path output_dir.
                        poetry_create_wheel sys module_path output_dir None)\<rparr>"

subsection \<open>\<^verbatim>\<open>bundler/uv.py\<close>\<close>

definition uv_EXTENSION_COMPILED_MODULE :: "system \<Rightarrow> string" where
  "uv_EXTENSION_COMPILED_MODULE sys =
     (if platform_system sys \<noteq> ''Windows'' then ''.so'' else ''.pyd'')"

definition uv_remove_readme_before_build :: "system \<Rightarrow> path \<Rightarrow> unit io" where
  "uv_remove_readme_before_build sys pyproject_path =
     and_then (fs_get (\<lambda>t. read_text_mode t pyproject_path)) (\<lambda>content0.
     and_then (fs_get (\<lambda>t. read_text_mode t pyproject_path)) (\<lambda>content.
       fs_do (\<lambda>t. write_text_mode sys t pyproject_path
                     (replace readme_setting [] content))))"

definition uv_build_ext :: "system \<Rightarrow> path \<Rightarrow> unit io" where
  "uv_build_ext sys location =
     (\<lambda>w. case subprocess_run sys
                  [''uv'', ''run'', ''python'', ''setup.py'', ''build_ext'', ''--inplace'']
                  location w of
             (Inr u, w') \<Rightarrow> (Inr u, w')
           | (Inl e, w') \<Rightarrow>
               if e = CalledProcessError
               then subprocess_run sys
                      [sys_executable sys, ''setup.py'', ''build_ext'', ''--inplace''] location w'
               else (Inl e, w'))"

definition uv_create_extension :: "system \<Rightarrow> path \<Rightarrow> path option \<Rightarrow> path io" where
  "uv_create_extension sys module_path output_dir =
     (\<lambda>w. let location = setup_location (files w) module_path in
           if \<not> path_exists (files w) (joinpath location ''setup.py'')
           then (Inl FileNotFoundError, w)
           else and_then (uv_build_ext sys location) (\<lambda>u.
                  collect_extension (uv_EXTENSION_COMPILED_MODULE sys) location output_dir) w)"

subsection \<open>\<^verbatim>\<open>bundler/standard.py\<close>\<close>

text \<open>\<^verbatim>\<open>_check_for_setuptools_project\<close>: \<open>toml_build_backend\<close> is
  \<^verbatim>\<open>content.get("build-system", {}).get("build-backend", "")\<close> of the parsed file.\<close>

definition check_for_setuptools_project :: "system \<Rightarrow> path \<Rightarrow> unit io" where
  "check_for_setuptools_project sys project_root =
     (\<lambda>w. if path_exists (files w) (joinpath project_root ''setup.py'') then (Inr (), w)
           else if path_exists (files w) (joinpath project_root ''pyproject.toml'') then
             (case read_text (files w) (joinpath project_root ''pyproject.toml'') of
                Inl e \<Rightarrow> (Inl e, w)
              | Inr content \<Rightarrow>
                  (case toml_build_backend sys content of
                     TomlDecodeError \<Rightarrow> (Inl TOMLDecodeError, w)
                   | TomlKeyError \<Rightarrow> (Inl ValueError, w)
                   | TomlTypeError \<Rightarrow> (Inl TypeError, w)
                   | TomlValue build_backend \<Rightarrow>
                       if sublist ''setuptools'' build_backend then (Inr (), w)
                       else (Inl ValueError, w)))
           else (Inl ValueError, w))"

definition standard_collect :: "system \<Rightarrow> path \<Rightarrow> path option \<Rightarrow> path io" where
  "standard_collect sys location output_dir =
     and_then (fs_get (\<lambda>t. last_item
                 (glob t location (''*'' @ EXTENSION_COMPILED_MODULE sys)))) (\<lambda>module_file.
     and_then (fs_do (\<lambda>t. rmtree t (joinpath location ''build''))) (\<lambda>u.
       case output_dir of
         None \<Rightarrow> ret module_file
       | Some od \<Rightarrow>
           and_then (fs_do (\<lambda>t. mkdir t od)) (\<lambda>u.
           and_then (fs_do (\<lambda>t. shutil_move t module_file
                                   (joinpath location (name module_file)))) (\<lambda>u.
             ret (joinpath location (name module_file))))))"

definition standard_create_extension :: "system \<Rightarrow> path \<Rightarrow> path option \<Rightarrow> path io" where
  "standard_create_extension sys module_path output_dir =
     and_then (check_for_setuptools_project sys (parent module_path)) (\<lambda>u.
       (\<lambda>w. let location = setup_location (files w) module_path in
             and_then (subprocess_run sys
                         [sys_executable sys, ''setup.py'', ''build_ext'', ''--inplace'']
                         location) (\<lambda>u.
               standard_collect sys location output_dir) w))"

section \<open>\<^verbatim>\<open>runtime/cython/builder.py\<close>\<close>

text \<open>
  A strategy is used here through \<^verbatim>\<open>get_runtime_code()\<close> only, an extension through
  \<^verbatim>\<open>get_code()\<close>; both return source text.
\<close>

record obfuscation_strategy =
  get_runtime_code :: string

record iextension =
  get_code :: string

record cython_runtime_builder =
  strategy :: obfuscation_strategy
  bundler :: ibundler
  extensions :: "iextension list"

definition create_cython_setup :: "system \<Rightarrow> path \<Rightarrow> unit io" where
  "create_cython_setup sys output_path =
     fs_do (\<lambda>t. write_text t (joinpath output_path ''setup.py'')
                   (safe_substitute sys (setup_py_template sys)
                      [(''version'', repr sys (version sys))]))"

definition create_init_file :: "system \<Rightarrow> path \<Rightarrow> unit io" where
  "create_init_file sys output_path =
     and_then (fs_do (\<lambda>t. write_text t (joinpath output_path ''__init__.py'')
                             (safe_substitute sys (init_py_template sys)
                                [(''platform'', repr sys (platform_system sys))]))) (\<lambda>u.
       fs_do (\<lambda>t. write_text t (joinpath output_path ''codeenigma_runtime.pyi'')
                     (runtime_pyi_template sys)))"

definition create_pyproject_toml :: "system \<Rightarrow> string \<Rightarrow> path \<Rightarrow> unit io" where
  "create_pyproject_toml sys module_file_path output_path =
     fs_do (\<lambda>t. write_text t (joinpath output_path ''pyproject.toml'')
                   (safe_substitute sys (pyproject_toml_template sys)
                      [(''version'', repr sys (version sys)),
                       (''module_file_path'', module_file_path)]))"

text \<open>The loop \<^verbatim>\<open>for extension in self.extensions: code += extension.get_code()\<close>.\<close>

fun append_extensions :: "string \<Rightarrow> iextension list \<Rightarrow> string" where
  "append_extensions code [] = code"
| "append_extensions code (extension # rest) =
     append_extensions (code @ get_code extension) rest"

definition runtime_source :: "cython_runtime_builder \<Rightarrow> string" where
  "runtime_source b = append_extensions (get_runtime_code (strategy b)) (extensions b)"

definition prepare_runtime_code :: "cython_runtime_builder \<Rightarrow> path \<Rightarrow> unit io" where
  "prepare_runtime_code b runtime_pyx_path =
     fs_do (\<lambda>t. write_text t runtime_pyx_path (runtime_source b))"

text \<open>\<^verbatim>\<open>build\<close>, in the three parts its comments name: steps 1 and 2 write the sources
  and compile them, then the intermediate files are cleaned up, then steps 3 and 4 lay
  out the runtime package and step 5 has the bundler make the wheel.\<close>

definition build_write_sources :: "system \<Rightarrow> cython_runtime_builder \<Rightarrow> path \<Rightarrow> unit io" where
  "build_write_sources sys b output_dir =
     and_then (fs_do (\<lambda>t. mkdir t output_dir)) (\<lambda>u.
     and_then (prepare_runtime_code b (joinpath output_dir ''codeenigma_runtime.pyx'')) (\<lambda>u.
       create_cython_setup sys output_dir))"

definition build_compile :: "system \<Rightarrow> cython_runtime_builder \<Rightarrow> path \<Rightarrow> path io" where
  "build_compile sys b output_dir =
     and_then (build_write_sources sys b output_dir) (\<lambda>u.
       create_extension (bundler b) output_dir None)"

fun unlink_each :: "path \<Rightarrow> string list \<Rightarrow> unit io" where
  "unlink_each d [] = ret ()"
| "unlink_each d (temp_file # rest) =
     and_then (fs_do (\<lambda>t. unlink t (joinpath d temp_file))) (\<lambda>u. unlink_each d rest)"

definition temp_files :: "string list" where
  "temp_files = [''setup.py'', ''codeenigma_runtime.pyx'', ''codeenigma_runtime.c'']"

definition build_cleanup :: "path \<Rightarrow> unit io" where
  "build_cleanup output_dir =
     and_then (unlink_each output_dir temp_files) (\<lambda>u.
       (\<lambda>w. (Inr (), w\<lparr>files := rmdir_suppressed (files w) (joinpath output_dir ''build'')\<rparr>)))"

definition build_package_files :: "system \<Rightarrow> path \<Rightarrow> path \<Rightarrow> unit io" where
  "build_package_files sys output_dir module_file =
     (let codeenigma_runtime_dir = joinpath output_dir ''codeenigma_runtime'';
          path_module = joinpath codeenigma_runtime_dir (name module_file) in
      and_then (fs_do (\<lambda>t. mkdir t codeenigma_runtime_dir)) (\<lambda>u.
      and_then (fs_do (\<lambda>t. shutil_move t module_file path_module)) (\<lambda>u.
      and_then (create_init_file sys (joinpath output_dir ''codeenigma_runtime'')) (\<lambda>u.
        create_pyproject_toml sys (''codeenigma_runtime/'' @ name module_file) output_dir))))"

definition build_package ::
    "system \<Rightarrow> cython_runtime_builder \<Rightarrow> path \<Rightarrow> path \<Rightarrow> unit io" where
  "build_package sys b output_dir module_file =
     and_then (build_package_files sys output_dir module_file) (\<lambda>u.
     and_then (create_wheel (bundler b) (joinpath output_dir ''codeenigma_runtime'')
                 (Some output_dir)) (\<lambda>wheel.
       ret ()))"

definition build :: "system \<Rightarrow> cython_runtime_builder \<Rightarrow> path \<Rightarrow> unit io" where
  "build sys b output_dir =
     and_then (build_compile sys b output_dir) (\<lambda>module_file.
     and_then (build_cleanup output_dir) (\<lambda>u.
       build_package sys b output_dir module_file))"

section \<open>\<^verbatim>\<open>cli.py\<close>\<close>

text \<open>
  The classes the commands instantiate from modules outside the modelled files are
  parameters: the strategy built from the key and nonce, the expiry extension of a date,
  and the orchestrator, whose constructor yields an object used through \<^verbatim>\<open>run()\<close>.
\<close>

record collaborators =
  new_strategy :: obfuscation_strategy
  new_expiry_extension :: "datetime \<Rightarrow> iextension"
  new_orchestrator ::
    "path \<Rightarrow> obfuscation_strategy \<Rightarrow> cython_runtime_builder \<Rightarrow> path \<Rightarrow> (unit io) io"

definition banner :: "system \<Rightarrow> string" where
  "banner sys = ''Welcome to CodeEnigma v'' @ version sys"

definition display_banner :: "system \<Rightarrow> world \<Rightarrow> world" where
  "display_banner sys = say (banner sys)"

definition path_str :: "path \<Rightarrow> string" where
  "path_str p = concat (map (\<lambda>c. ''/'' @ c) p)"

definition msg_not_exist :: "path \<Rightarrow> string" where
  "msg_not_exist module_path =
     ''Error: Module path '' @ path_str module_path @ '' does not exist''"

definition msg_not_dir :: string where
  "msg_not_dir = ''Error: Module path must be a directory containing Python files''"

definition msg_bad_date :: string where
  "msg_bad_date =
     ''Error: Invalid expiration date format. Please use YYYY-MM-DD HH:MM:SS+0000''"

definition msg_past_date :: string where
  "msg_past_date = ''Error: Expiration date must be in the future''"

text \<open>Lines 74 to 85: the module path must exist and be a directory.\<close>

definition check_module_path :: "path \<Rightarrow> unit io" where
  "check_module_path module_path =
     (\<lambda>w. if \<not> path_exists (files w) module_path
           then (Inl (TyperExit 1), say (msg_not_exist module_path) w)
           else if \<not> is_dir (files w) module_path
           then (Inl (TyperExit 1), say msg_not_dir w)
           else (Inr (), w))"

text \<open>
  Lines 87 to 94.  The option is \<open>None\<close> when it is not given; \<^verbatim>\<open>if expiration_date:\<close>
  is false for \<open>None\<close> and for the empty string, and then nothing is parsed.  An empty
  string is falsy in the later tests too, so it goes on as no date.
\<close>

definition parse_expiration :: "system \<Rightarrow> string option \<Rightarrow> datetime option io" where
  "parse_expiration sys expiration_date =
     (\<lambda>w. case expiration_date of
             None \<Rightarrow> (Inr None, w)
           | Some s \<Rightarrow>
               if s = [] then (Inr None, w)
               else (case fromisoformat sys s of
                       None \<Rightarrow> (Inl (TyperExit 1), say msg_bad_date w)
                     | Some d \<Rightarrow> (Inr (Some d), w)))"

text \<open>Lines 96 to 100.  \<^verbatim>\<open>datetime.now(tz=UTC)\<close> is aware, and Python refuses to order a
  naive and an aware \<^verbatim>\<open>datetime\<close>.\<close>

definition check_future :: "system \<Rightarrow> datetime option \<Rightarrow> unit io" where
  "check_future sys expiration_date =
     (\<lambda>w. case expiration_date of
             None \<Rightarrow> (Inr (), w)
           | Some (Naive n) \<Rightarrow> (Inl TypeError, w)
           | Some (Aware i) \<Rightarrow>
               if i < now_utc sys then (Inl (TyperExit 1), say msg_past_date w)
               else (Inr (), w))"

text \<open>Lines 102 to 128.\<close>

definition run_orchestrator ::
    "system \<Rightarrow> collaborators \<Rightarrow> path \<Rightarrow> datetime option \<Rightarrow> path \<Rightarrow> bool \<Rightarrow> unit io" where
  "run_orchestrator sys col module_path expiration_date output_dir verbose =
     (let strat = new_strategy col;
          exts = (case expiration_date of
                    None \<Rightarrow> []
                  | Some d \<Rightarrow> [new_expiry_extension col d]);
          r = \<lparr>strategy = strat, bundler = poetry_bundler sys, extensions = exts\<rparr>
      in and_then (new_orchestrator col module_path strat r output_dir) (\<lambda>run.
           (\<lambda>w. case run (if verbose then say ''Starting codeenigma...'' w else w) of
                   (Inr u, w') \<Rightarrow>
                     (Inr (), if verbose
                              then say ''Output files saved'' (say ''Obfuscation completed successfully!'' w')
                              else w')
                 | (Inl e, w') \<Rightarrow> (Inl (TyperExit 1), say ''Error during obfuscation'' w'))))"

definition obfuscate ::
    "system \<Rightarrow> collaborators \<Rightarrow> path \<Rightarrow> string option \<Rightarrow> path \<Rightarrow> bool \<Rightarrow> unit io" where
  "obfuscate sys col module_path expiration_date output_dir verbose =
     (\<lambda>w. and_then (check_module_path module_path) (\<lambda>u.
           and_then (parse_expiration sys expiration_date) (\<lambda>d.
           and_then (check_future sys d) (\<lambda>u.
             run_orchestrator sys col module_path d output_dir verbose)))
           (display_banner sys w))"

text \<open>The loop of lines 184 to 187.\<close>

fun rewrite_each :: "string \<Rightarrow> string \<Rightarrow> path list \<Rightarrow> unit io" where
  "rewrite_each old_text new_text [] = ret ()"
| "rewrite_each old_text new_text (file # rest) =
     and_then (fs_get (\<lambda>t. read_text t file)) (\<lambda>file_text.
     and_then (fs_do (\<lambda>t. write_text t file (replace old_text new_text file_text))) (\<lambda>u.
       rewrite_each old_text new_text rest))"

definition old_text :: string where
  "old_text = ''from codeenigma_runtime''"

definition new_text :: "string \<Rightarrow> string" where
  "new_text module_name = ''from '' @ module_name @ ''.codeenigma_runtime''"

text \<open>Lines 171 to 189: the stubs are pointed at the nested runtime package and the
  package is moved.  \<^verbatim>\<open>Path.cwd()\<close> is the root of the modelled tree.\<close>

definition merge_runtime :: "path \<Rightarrow> path \<Rightarrow> unit io" where
  "merge_runtime module_path output_dir =
     (let module_name = name (parent module_path);
          dist_path = output_dir;
          path_module_obfuscated = joinpath dist_path module_name;
          runtime_path = joinpath dist_path ''codeenigma_runtime'';
          dest = joinpath path_module_obfuscated ''codeenigma_runtime''
      in and_then (\<lambda>w. rewrite_each old_text (new_text module_name)
                          (rglob (files w) path_module_obfuscated ''*.py'') w) (\<lambda>u.
           fs_do (\<lambda>t. shutil_move t runtime_path dest)))"

text \<open>Lines 191 to 212: the compiled runtime is looked up, the PyInstaller spec file is
  written and PyInstaller runs.\<close>

definition run_pyinstaller :: "system \<Rightarrow> path \<Rightarrow> string \<Rightarrow> path \<Rightarrow> unit io" where
  "run_pyinstaller sys module_path exe_name output_dir =
     (let module_name = name (parent module_path);
          dist_path = output_dir;
          dest = joinpath (joinpath dist_path module_name) ''codeenigma_runtime'';
          dest_spec_file = joinpath dist_path (module_name @ ''.spec'')
      in and_then (fs_get (\<lambda>t. last_item
                     (glob t dest (''codeenigma_runtime*.'' @ EXTENSION_COMPILED_MODULE sys))))
           (\<lambda>runtime_compiled.
         and_then (fs_do (\<lambda>t. write_text t dest_spec_file
                     (safe_substitute sys (pyinstaller_spec_template sys)
                        [(''entry_point'', repr sys (path_str module_path)),
                         (''compiled_codeenigma'', repr sys (path_str runtime_compiled)),
                         (''exe_name'', exe_name)]))) (\<lambda>u.
           subprocess_run sys
             [''pyinstaller'', path_str dest_spec_file, ''--distpath'', path_str dist_path] [])))"

definition set_building_exe :: "string \<Rightarrow> world \<Rightarrow> world" where
  "set_building_exe v w = w\<lparr>environ := (environ w)(''CODEENIGMA_BUILDING_EXE'' \<mapsto> v)\<rparr>"

text \<open>The \<^verbatim>\<open>build\<close> command.  \<^verbatim>\<open>obfuscate\<close> is called before the \<^verbatim>\<open>try\<close>; the handler
  turns every exception of the block into exit code 1, and the \<^verbatim>\<open>finally\<close> resets the
  environment variable.\<close>

definition cli_build ::
    "system \<Rightarrow> collaborators \<Rightarrow> path \<Rightarrow> string \<Rightarrow> string option \<Rightarrow> path \<Rightarrow> bool \<Rightarrow> unit io" where
  "cli_build sys col module_path exe_name expiration_date output_dir verbose =
     (\<lambda>w. case obfuscate sys col module_path expiration_date output_dir verbose
                  (set_building_exe ''1'' w) of
             (Inl e, w1) \<Rightarrow> (Inl e, w1)
           | (Inr u, w1) \<Rightarrow>
               (case and_then (merge_runtime module_path output_dir) (\<lambda>u.
                       run_pyinstaller sys module_path exe_name output_dir)
                       (say ''Starting pyinstaller build...'' w1) of
                  (Inr u, w2) \<Rightarrow> (Inr (), set_building_exe ''0'' w2)
                | (Inl e, w2) \<Rightarrow>
                    (Inl (TyperExit 1), set_building_exe ''0'' (say ''Error during build'' w2))))"

section \<open>Conditions on the external programs\<close>

text \<open>
  What a compiler or packager does to the files is not in the repository.  Where a
  property depends on it, the condition is that a command, or every command, leaves the
  node at a path as it found it.
\<close>

definition command_keeps :: "system \<Rightarrow> string list \<Rightarrow> path \<Rightarrow> bool" where
  "command_keeps sys cmd q =
     (\<forall>cwd t. node_at (snd (run_process sys cmd cwd t)) q = node_at t q)"

definition process_keeps :: "system \<Rightarrow> path \<Rightarrow> bool" where
  "process_keeps sys q =
     (\<forall>cmd cwd t. node_at (snd (run_process sys cmd cwd t)) q = node_at t q)"

section \<open>Concrete inputs\<close>

text \<open>Small builders, worlds and systems on which the properties below are run.\<close>

definition ex_builder :: cython_runtime_builder where
  "ex_builder =
     \<lparr>strategy = \<lparr>get_runtime_code = ''def run(): pass;''\<rparr>,
      bundler = \<lparr>create_extension = (\<lambda>m od. raise CalledProcessError),
                 create_wheel = (\<lambda>m od. ret None)\<rparr>,
      extensions = [\<lparr>get_code = ''guard_a();''\<rparr>, \<lparr>get_code = ''guard_b();''\<rparr>]\<rparr>"

definition ex_world :: world where
  "ex_world = \<lparr>files = [([''cedist''], Dir)], environ = Map.empty, procs = [], console = []\<rparr>"

definition ex_spliced_world :: world where
  \<open>ex_spliced_world =
     \<lparr>files = [([''pkg''], Dir),
               ([''pkg'', ''pyproject.toml''], File ''readme = "READreadme = "README.md"ME.md"''),
               ([''pkg'', ''crlf.toml''], File (''name = 1'' @ [CHR 0x0D, CHR 0x0A]))],
      environ = Map.empty, procs = [], console = []\<rparr>\<close>

definition ex_pyproject_world :: world where
  \<open>ex_pyproject_world =
     \<lparr>files = [([''pkg''], Dir),
               ([''pkg'', ''pyproject.toml''],
                File ''[tool.poetry] version = "1.0" readme = "README.md" name = "rt"''),
               ([''pkg'', ''other.toml''], File ''[tool.poetry] version = "1.0"'')],
      environ = [''CODEENIGMA_BUILDING_EXE'' \<mapsto> ''1''], procs = [], console = []\<rparr>\<close>

text \<open>A system where \<^verbatim>\<open>poetry\<close> fails and the interpreter's own \<^verbatim>\<open>build_ext\<close> leaves
  a \<^verbatim>\<open>build\<close> directory, the generated C file and the compiled module.\<close>

definition ex_compile :: "string list \<Rightarrow> path \<Rightarrow> fs \<Rightarrow> proc_result \<times> fs" where
  "ex_compile cmd cwd t =
     (if cmd = [''python3'', ''setup.py'', ''build_ext'', ''--inplace''] then
        (Returned 0,
         AList.update (joinpath cwd ''codeenigma_runtime.so'') (File ''ELF'')
           (AList.update (joinpath cwd ''codeenigma_runtime.c'') (File ''/* C */'')
              (AList.update (joinpath cwd ''build'') Dir t)))
      else (Returned 1, t))"

definition ex_fromisoformat :: "string \<Rightarrow> datetime option" where
  "ex_fromisoformat s =
     (if s = ''2030-01-01T00:00:00+00:00'' then Some (Aware 1893456000000000)
      else if s = ''2020-01-01T00:00:00+00:00'' then Some (Aware 1577836800000000)
      else if s = ''2020-01-01'' then Some (Naive 1577836800000000)
      else None)"

definition ex_system :: system where
  "ex_system =
     \<lparr>run_process = ex_compile,
      sys_executable = ''python3'',
      platform_system = ''Linux'',
      EXTENSION_COMPILED_MODULE = ''.so'',
      version = ''1.0'',
      repr = (\<lambda>s. [CHR 0x27] @ s @ [CHR 0x27]),
      safe_substitute = (\<lambda>template mapping. template),
      setup_py_template = ''setup(version=$version)'',
      init_py_template = ''PLATFORM = $platform'',
      runtime_pyi_template = ''def execute_secure_code(path): ...'',
      pyproject_toml_template = ''[tool.poetry] version = $version'',
      pyinstaller_spec_template = ''Analysis([$entry_point])'',
      toml_poetry_version =
        (\<lambda>content. if sublist ''version = '' content then TomlValue ''1.0'' else TomlKeyError),
      toml_build_backend = (\<lambda>content. TomlValue ''setuptools.build_meta''),
      fromisoformat = ex_fromisoformat,
      now_utc = 1793750400000000\<rparr>"

text \<open>An orchestrator that writes one stub below the output directory, under the
  module's name, and a runtime package beside it.\<close>

definition ex_orchestrator ::
    "path \<Rightarrow> obfuscation_strategy \<Rightarrow> cython_runtime_builder \<Rightarrow> path \<Rightarrow> (unit io) io" where
  "ex_orchestrator module_path strat r output_dir =
     ret (and_then (fs_do (\<lambda>t. mkdir t output_dir)) (\<lambda>u.
          and_then (fs_do (\<lambda>t. mkdir t (joinpath output_dir (name module_path)))) (\<lambda>u.
          and_then (fs_do (\<lambda>t. write_text t
                      (joinpath (joinpath output_dir (name module_path)) ''app.py'')
                      ''from codeenigma_runtime import execute_secure_code'')) (\<lambda>u.
          and_then (fs_do (\<lambda>t. mkdir t (joinpath output_dir ''codeenigma_runtime''))) (\<lambda>u.
            fs_do (\<lambda>t. write_text t
                      (joinpath (joinpath output_dir ''codeenigma_runtime'') ''__init__.py'')
                      (get_runtime_code strat)))))))"

definition ex_collaborators :: collaborators where
  "ex_collaborators =
     \<lparr>new_strategy = \<lparr>get_runtime_code = ''def run(): pass;''\<rparr>,
      new_expiry_extension = (\<lambda>d. \<lparr>get_code = ''check_expiry();''\<rparr>),
      new_orchestrator = ex_orchestrator\<rparr>"

definition ex_app_world :: world where
  "ex_app_world =
     \<lparr>files = [([''proj''], Dir), ([''proj'', ''myapp''], Dir),
               ([''proj'', ''myapp'', ''app.py''], File ''print(1)''),
               ([''notes.txt''], File ''todo'')],
      environ = Map.empty, procs = [], console = []\<rparr>"

text \<open>Systems where every command succeeds and changes nothing, a Windows system, and
  a system where every command fails.\<close>

definition ex_silent_system :: system where
  "ex_silent_system = ex_system\<lparr>run_process := (\<lambda>cmd cwd t. (Returned 0, t))\<rparr>"

definition ex_setup_world :: world where
  "ex_setup_world =
     \<lparr>files = [([''cedist''], Dir), ([''cedist'', ''setup.py''], File ''setup()''),
               ([''proj''], Dir), ([''proj'', ''myapp''], Dir)],
      environ = Map.empty, procs = [], console = []\<rparr>"

definition ex_windows_system :: system where
  "ex_windows_system = ex_system\<lparr>platform_system := ''Windows''\<rparr>"

definition ex_failing_system :: system where
  "ex_failing_system = ex_system\<lparr>run_process := (\<lambda>cmd cwd t. (Returned 1, t))\<rparr>"

definition ex_poetry_builder :: "system \<Rightarrow> cython_runtime_builder" where
  "ex_poetry_builder sys =
     \<lparr>strategy = \<lparr>get_runtime_code = ''def run(): pass;''\<rparr>,
      bundler = poetry_bundler sys,
      extensions = [\<lparr>get_code = ''guard_a();''\<rparr>, \<lparr>get_code = ''guard_b();''\<rparr>]\<rparr>"

definition ex_exe_world :: world where
  "ex_exe_world = ex_world\<lparr>environ := [''CODEENIGMA_BUILDING_EXE'' \<mapsto> ''1'']\<rparr>"

definition ex_dist_world :: world where
  "ex_dist_world =
     \<lparr>files = [([''proj''], Dir), ([''proj'', ''myapp''], Dir),
               ([''cedist''], Dir),
               ([''cedist'', ''myapp''], Dir),
               ([''cedist'', ''myapp'', ''app.py''],
                File ''from codeenigma_runtime import execute_secure_code''),
               ([''cedist'', ''proj''], Dir),
               ([''cedist'', ''proj'', ''tool.py''],
                File ''from codeenigma_runtime import execute_secure_code''),
               ([''cedist'', ''codeenigma_runtime''], Dir),
               ([''cedist'', ''codeenigma_runtime'', ''__init__.py''], File ''PLATFORM'')],
      environ = Map.empty, procs = [], console = []\<rparr>"

section \<open>Properties\<close>

subsection \<open>Facts about the file system\<close>

lemmas io_defs = and_then_def fs_do_def fs_get_def ret_def raise_def

lemma node_at_update:
  "p \<noteq> [] \<Longrightarrow> node_at (AList.update p v t) q = (if q = p then Some v else node_at t q)"
  by (simp add: node_at_def update_conv')

lemma node_at_delete:
  "node_at (AList.delete p t) q = (if q = p \<and> q \<noteq> [] then None else node_at t q)"
  by (simp add: node_at_def delete_conv')

lemma write_text_node_at:
  "write_text t p s = Inr t' \<Longrightarrow> node_at t' q = (if q = p then Some (File s) else node_at t q)"
  by (cases "p = []")
     (auto simp: write_text_def node_at_update split: option.splits node.splits,
      auto simp: node_at_def)

lemma write_text_ok:
  "node_at t p \<noteq> Some Dir \<Longrightarrow> is_dir t (parent p) \<Longrightarrow>
   write_text t p s = Inr (AList.update p (File s) t)"
  by (auto simp: write_text_def is_dir_def split: option.splits node.splits)

subsection \<open>The runtime source\<close>

lemma append_extensions_concat:
  "append_extensions code es = code @ concat (map get_code es)"
  by (induction es arbitrary: code) simp_all

text \<open>
  C1.  Where the file can be opened for writing (the path is not a directory and lies in
  an existing directory), \<^verbatim>\<open>prepare_runtime_code\<close> succeeds and leaves at the path
  exactly the strategy's runtime code followed by the code of every extension, in the
  order of the sequence; no other path changes.
\<close>

theorem prepare_runtime_code_writes_source:
  assumes "node_at (files w) p \<noteq> Some Dir" and "is_dir (files w) (parent p)"
  shows "fst (prepare_runtime_code b p w) = Inr ()
       \<and> node_at (files (snd (prepare_runtime_code b p w))) p =
           Some (File (get_runtime_code (strategy b) @ concat (map get_code (extensions b))))
       \<and> (\<forall>q. q \<noteq> p \<longrightarrow>
             node_at (files (snd (prepare_runtime_code b p w))) q = node_at (files w) q)"
proof -
  have ok: "write_text (files w) p (runtime_source b)
              = Inr (AList.update p (File (runtime_source b)) (files w))"
    using assms by (rule write_text_ok)
  have src: "runtime_source b
               = get_runtime_code (strategy b) @ concat (map get_code (extensions b))"
    by (simp add: runtime_source_def append_extensions_concat)
  from ok show ?thesis
    by (simp add: prepare_runtime_code_def fs_do_def write_text_node_at src)
qed

theorem prepare_runtime_code_witness:
  "node_at (files ex_world) [''cedist'', ''codeenigma_runtime.pyx''] \<noteq> Some Dir
   \<and> is_dir (files ex_world) (parent [''cedist'', ''codeenigma_runtime.pyx''])
   \<and> node_at (files (snd (prepare_runtime_code ex_builder
                              [''cedist'', ''codeenigma_runtime.pyx''] ex_world)))
        [''cedist'', ''codeenigma_runtime.pyx'']
      = Some (File ''def run(): pass;guard_a();guard_b();'')"
proof -
  have h1: "node_at (files ex_world) [''cedist'', ''codeenigma_runtime.pyx''] \<noteq> Some Dir"
    by (simp add: ex_world_def node_at_def)
  have h2: "is_dir (files ex_world) (parent [''cedist'', ''codeenigma_runtime.pyx''])"
    by (simp add: ex_world_def node_at_def is_dir_def parent_def)
  show ?thesis
    using h1 h2 prepare_runtime_code_writes_source [OF h1 h2, of ex_builder]
    by (simp add: ex_builder_def)
qed

subsection \<open>Removing the readme setting\<close>

lemma replace_no_occurrence:
  "old \<noteq> [] \<Longrightarrow> \<not> sublist old s \<Longrightarrow> replace old new s = s"
proof (induction s)
  case Nil
  then show ?case by (simp add: replace.simps)
next
  case (Cons c s)
  then show ?case
    by (subst replace.simps) (auto simp: sublist_Cons_right)
qed

lemma readme_setting_nonempty: "readme_setting \<noteq> []"
  by (simp add: readme_setting_def)

lemma node_at_File_nonempty: "node_at t p = Some (File c) \<Longrightarrow> p \<noteq> []"
  by (auto simp: node_at_def)

lemma update_same_node: "node_at t p = Some (File c) \<Longrightarrow> AList.update p (File c) t = t"
  by (rule update_triv) (auto simp: node_at_def split: if_splits)

lemma universal_newlines_no_cr: "CHR 0x0D \<notin> set (universal_newlines s)"
  by (induction s rule: universal_newlines.induct) auto

lemma universal_newlines_Cons:
  "c \<noteq> CHR 0x0D \<Longrightarrow> universal_newlines (c # s) = c # universal_newlines s"
  by (cases s) simp_all

lemma universal_newlines_id: "CHR 0x0D \<notin> set s \<Longrightarrow> universal_newlines s = s"
proof (induction s)
  case Nil
  then show ?case by simp
next
  case (Cons c s)
  then have "c \<noteq> CHR 0x0D" and "universal_newlines s = s"
    by auto
  then show ?case by (simp add: universal_newlines_Cons)
qed

lemma write_newlines_Cons:
  "write_newlines sys (c # s) = (if c = CHR 0x0A then linesep sys else [c]) @ write_newlines sys s"
  by (simp add: write_newlines_def)

lemma write_newlines_elsewhere:
  "platform_system sys \<noteq> ''Windows'' \<Longrightarrow> write_newlines sys s = s"
  by (induction s) (simp_all add: write_newlines_def linesep_def)

lemma universal_newlines_write:
  "CHR 0x0D \<notin> set s \<Longrightarrow> universal_newlines (write_newlines sys s) = s"
proof (induction s)
  case Nil
  then show ?case by (simp add: write_newlines_def)
next
  case (Cons c s)
  then have ih: "universal_newlines (write_newlines sys s) = s" and c: "c \<noteq> CHR 0x0D"
    by auto
  show ?case
  proof (cases "c = CHR 0x0A")
    case False
    with c ih show ?thesis
      by (simp add: write_newlines_Cons universal_newlines_Cons)
  next
    case True
    then show ?thesis
      using ih by (simp add: write_newlines_Cons linesep_def universal_newlines_Cons)
  qed
qed

lemma replace_deletes:
  "old \<noteq> [] \<Longrightarrow> x \<in> set (replace old [] s) \<Longrightarrow> x \<in> set s"
proof (induction "length s" arbitrary: s rule: less_induct)
  case less
  show ?case
  proof (cases s)
    case Nil
    with less.prems show ?thesis by (simp add: replace.simps)
  next
    case (Cons c cs)
    show ?thesis
    proof (cases "prefix old s")
      case True
      with less.prems Cons have "x \<in> set (replace old [] (drop (length old) s))"
        by (subst (asm) replace.simps) simp
      moreover have "length (drop (length old) s) < length s"
        using less.prems(1) Cons by simp
      ultimately have "x \<in> set (drop (length old) s)"
        using less.hyps less.prems(1) by blast
      then show ?thesis by (rule in_set_dropD)
    next
      case False
      with less.prems Cons have "x = c \<or> x \<in> set (replace old [] cs)"
        by (subst (asm) replace.simps) auto
      moreover have "length cs < length s" using Cons by simp
      ultimately show ?thesis
        using less.hyps less.prems(1) Cons by auto
    qed
  qed
qed

lemma poetry_remove_readme_result:
  "node_at (files w) p = Some (File c) \<Longrightarrow>
   poetry_remove_readme_before_build sys p w =
     (Inr (), w\<lparr>files := AList.update p
                  (File (write_newlines sys (replace readme_setting [] (universal_newlines c))))
                  (files w)\<rparr>)"
  by (simp add: poetry_remove_readme_before_build_def io_defs read_text_mode_def
        write_text_mode_def read_text_def write_text_def)

lemma uv_remove_readme_result:
  "node_at (files w) p = Some (File c) \<Longrightarrow>
   uv_remove_readme_before_build sys p w =
     (Inr (), w\<lparr>files := AList.update p
                  (File (write_newlines sys (replace readme_setting [] (universal_newlines c))))
                  (files w)\<rparr>)"
  by (simp add: uv_remove_readme_before_build_def io_defs read_text_mode_def
        write_text_mode_def read_text_def write_text_def)

text \<open>
  C10, as stated, fails twice, here on a platform whose line separator is LF.  Deleting
  an occurrence can join the text around it into a new occurrence: on the first file
  one application leaves the setting itself and a second application deletes it.  And a
  file without the setting is not left byte for byte: the second file ends in CR LF
  and is written back ending in LF.
\<close>

theorem remove_readme_twice_differs:
  \<open>platform_system ex_system = ''Linux''
   \<and> node_at (files (snd (poetry_remove_readme_before_build ex_system [''pkg'', ''pyproject.toml'']
                          ex_spliced_world))) [''pkg'', ''pyproject.toml'']
     = Some (File ''readme = "README.md"'')
   \<and> node_at (files (snd (poetry_remove_readme_before_build ex_system [''pkg'', ''pyproject.toml'']
               (snd (poetry_remove_readme_before_build ex_system [''pkg'', ''pyproject.toml'']
                          ex_spliced_world))))) [''pkg'', ''pyproject.toml'']
     = Some (File [])
   \<and> node_at (files ex_spliced_world) [''pkg'', ''crlf.toml'']
     = Some (File (''name = 1'' @ [CHR 0x0D, CHR 0x0A]))
   \<and> node_at (files (snd (poetry_remove_readme_before_build ex_system [''pkg'', ''crlf.toml'']
                          ex_spliced_world))) [''pkg'', ''crlf.toml'']
     = Some (File (''name = 1'' @ [CHR 0x0A]))\<close>
  by code_simp

text \<open>
  C10, amended.  On a file with bytes \<open>c\<close> both bundlers' \<^verbatim>\<open>remove_readme_before_build\<close>
  do the same: the file is read in text mode, the occurrences of the setting are
  deleted from left to right, and the result is written in text mode; nothing else
  changes.  A file that does not contain the setting and has no carriage return is left
  byte for byte as it is on a platform whose line separator is LF, and so is, on any
  platform, a file without the setting whose line ends are already the ones text mode
  writes.  A second application changes nothing whenever the text left by the first no
  longer contains the setting.
\<close>

theorem remove_readme_effect:
  assumes "node_at (files w) p = Some (File c)"
  shows "uv_remove_readme_before_build sys p w = poetry_remove_readme_before_build sys p w
       \<and> poetry_remove_readme_before_build sys p w =
           (Inr (), w\<lparr>files := AList.update p
              (File (write_newlines sys (replace readme_setting [] (universal_newlines c))))
              (files w)\<rparr>)
       \<and> (\<not> sublist readme_setting c \<and> CHR 0x0D \<notin> set c
            \<and> platform_system sys \<noteq> ''Windows'' \<longrightarrow>
            poetry_remove_readme_before_build sys p w = (Inr (), w))
       \<and> (\<not> sublist readme_setting (universal_newlines c)
            \<and> write_newlines sys (universal_newlines c) = c \<longrightarrow>
            poetry_remove_readme_before_build sys p w = (Inr (), w))
       \<and> (\<not> sublist readme_setting (replace readme_setting [] (universal_newlines c)) \<longrightarrow>
            poetry_remove_readme_before_build sys p
                (snd (poetry_remove_readme_before_build sys p w))
              = poetry_remove_readme_before_build sys p w)"
proof -
  let ?s' = "replace readme_setting [] (universal_newlines c)"
  let ?c' = "write_newlines sys ?s'"
  let ?w' = "w\<lparr>files := AList.update p (File ?c') (files w)\<rparr>"
  have once: "poetry_remove_readme_before_build sys p w = (Inr (), ?w')"
    using assms by (rule poetry_remove_readme_result)
  have uv: "uv_remove_readme_before_build sys p w = (Inr (), ?w')"
    using assms by (rule uv_remove_readme_result)
  have general: "poetry_remove_readme_before_build sys p w = (Inr (), w)"
    if "\<not> sublist readme_setting (universal_newlines c)
        \<and> write_newlines sys (universal_newlines c) = c"
  proof -
    have "?s' = universal_newlines c"
      using that by (simp add: replace_no_occurrence readme_setting_nonempty)
    then have "?c' = c"
      using that by simp
    then show ?thesis
      using once assms by (simp add: update_same_node)
  qed
  have same: "poetry_remove_readme_before_build sys p w = (Inr (), w)"
    if "\<not> sublist readme_setting c \<and> CHR 0x0D \<notin> set c
        \<and> platform_system sys \<noteq> ''Windows''"
  proof -
    have "universal_newlines c = c"
      using that by (simp add: universal_newlines_id)
    moreover have "write_newlines sys c = c"
      using that by (simp add: write_newlines_elsewhere)
    ultimately show ?thesis
      using that general by simp
  qed
  have twice: "poetry_remove_readme_before_build sys p ?w' = (Inr (), ?w')"
    if "\<not> sublist readme_setting ?s'"
  proof -
    have p: "p \<noteq> []" using assms by (rule node_at_File_nonempty)
    have at: "node_at (files ?w') p = Some (File ?c')"
      using p by (simp add: node_at_update)
    have "CHR 0x0D \<notin> set ?s'"
      using replace_deletes [OF readme_setting_nonempty] universal_newlines_no_cr by blast
    then have reread: "universal_newlines ?c' = ?s'"
      by (rule universal_newlines_write)
    have "replace readme_setting [] ?s' = ?s'"
      using that by (simp add: replace_no_occurrence readme_setting_nonempty)
    then show ?thesis
      using poetry_remove_readme_result [OF at, of sys] at
      by (simp add: reread update_same_node)
  qed
  show ?thesis
    using once uv same general twice by simp
qed

theorem remove_readme_effect_witness:
  \<open>node_at (files ex_pyproject_world) [''pkg'', ''pyproject.toml'']
      = Some (File ''[tool.poetry] version = "1.0" readme = "README.md" name = "rt"'')
   \<and> node_at (files ex_pyproject_world) [''pkg'', ''other.toml'']
      = Some (File ''[tool.poetry] version = "1.0"'')
   \<and> platform_system ex_system \<noteq> ''Windows''
   \<and> node_at (files (snd (uv_remove_readme_before_build ex_system [''pkg'', ''pyproject.toml'']
                             ex_pyproject_world))) [''pkg'', ''pyproject.toml'']
      = Some (File ''[tool.poetry] version = "1.0"  name = "rt"'')
   \<and> poetry_remove_readme_before_build ex_system [''pkg'', ''pyproject.toml'']
        (snd (poetry_remove_readme_before_build ex_system [''pkg'', ''pyproject.toml'']
                ex_pyproject_world))
      = poetry_remove_readme_before_build ex_system [''pkg'', ''pyproject.toml'']
          ex_pyproject_world
   \<and> poetry_remove_readme_before_build ex_system [''pkg'', ''other.toml''] ex_pyproject_world
      = (Inr (), ex_pyproject_world)
   \<and> node_at (files ex_spliced_world) [''pkg'', ''crlf.toml'']
      = Some (File (''name = 1'' @ [CHR 0x0D, CHR 0x0A]))
   \<and> platform_system ex_windows_system = ''Windows''
   \<and> poetry_remove_readme_before_build ex_windows_system [''pkg'', ''crlf.toml'']
        ex_spliced_world
      = (Inr (), ex_spliced_world)\<close>
proof -
  have h1: \<open>node_at (files ex_pyproject_world) [''pkg'', ''pyproject.toml'']
      = Some (File ''[tool.poetry] version = "1.0" readme = "README.md" name = "rt"'')\<close>
    by (simp add: ex_pyproject_world_def node_at_def)
  have h2: \<open>node_at (files ex_pyproject_world) [''pkg'', ''other.toml'']
      = Some (File ''[tool.poetry] version = "1.0"'')\<close>
    by (simp add: ex_pyproject_world_def node_at_def)
  have pl: "platform_system ex_system \<noteq> ''Windows''"
    by (simp add: ex_system_def)
  have u: \<open>universal_newlines ''[tool.poetry] version = "1.0" readme = "README.md" name = "rt"''
           = ''[tool.poetry] version = "1.0" readme = "README.md" name = "rt"''\<close>
    by (simp add: universal_newlines_id)
  have r: \<open>replace readme_setting []
             ''[tool.poetry] version = "1.0" readme = "README.md" name = "rt"''
           = ''[tool.poetry] version = "1.0"  name = "rt"''\<close>
    by (simp add: readme_setting_def replace.simps)
  have wr: \<open>write_newlines ex_system ''[tool.poetry] version = "1.0"  name = "rt"''
           = ''[tool.poetry] version = "1.0"  name = "rt"''\<close>
    using pl by (rule write_newlines_elsewhere)
  have n1: \<open>\<not> sublist readme_setting ''[tool.poetry] version = "1.0"  name = "rt"''\<close>
    by (simp add: readme_setting_def sublist_Cons_right)
  have n2: \<open>\<not> sublist readme_setting ''[tool.poetry] version = "1.0"''
            \<and> CHR 0x0D \<notin> set ''[tool.poetry] version = "1.0"''
            \<and> platform_system ex_system \<noteq> ''Windows''\<close>
    using pl by (simp add: readme_setting_def sublist_Cons_right)
  note e1 = remove_readme_effect [OF h1, of ex_system, unfolded u r wr]
  note e2 = remove_readme_effect [OF h2, of ex_system]
  have c3: \<open>node_at (files (snd (uv_remove_readme_before_build ex_system
                             [''pkg'', ''pyproject.toml''] ex_pyproject_world)))
               [''pkg'', ''pyproject.toml'']
      = Some (File ''[tool.poetry] version = "1.0"  name = "rt"'')\<close>
    unfolding e1 [THEN conjunct1] e1 [THEN conjunct2, THEN conjunct1]
    by (simp add: node_at_update)
  have c4: \<open>poetry_remove_readme_before_build ex_system [''pkg'', ''pyproject.toml'']
        (snd (poetry_remove_readme_before_build ex_system [''pkg'', ''pyproject.toml'']
                ex_pyproject_world))
      = poetry_remove_readme_before_build ex_system [''pkg'', ''pyproject.toml'']
          ex_pyproject_world\<close>
    by (rule e1 [THEN conjunct2, THEN conjunct2, THEN conjunct2, THEN conjunct2, THEN mp,
                 OF n1])
  have c5: \<open>poetry_remove_readme_before_build ex_system [''pkg'', ''other.toml'']
               ex_pyproject_world = (Inr (), ex_pyproject_world)\<close>
    by (rule e2 [THEN conjunct2, THEN conjunct2, THEN conjunct1, THEN mp, OF n2])
  have h3: \<open>node_at (files ex_spliced_world) [''pkg'', ''crlf.toml'']
      = Some (File (''name = 1'' @ [CHR 0x0D, CHR 0x0A]))\<close>
    by (simp add: ex_spliced_world_def node_at_def)
  have win: "platform_system ex_windows_system = ''Windows''"
    by (simp add: ex_windows_system_def)
  have n3: \<open>\<not> sublist readme_setting (universal_newlines (''name = 1'' @ [CHR 0x0D, CHR 0x0A]))
            \<and> write_newlines ex_windows_system
                  (universal_newlines (''name = 1'' @ [CHR 0x0D, CHR 0x0A]))
                = ''name = 1'' @ [CHR 0x0D, CHR 0x0A]\<close>
    by code_simp
  note e3 = remove_readme_effect [OF h3, of ex_windows_system]
  have c6: \<open>poetry_remove_readme_before_build ex_windows_system [''pkg'', ''crlf.toml'']
               ex_spliced_world = (Inr (), ex_spliced_world)\<close>
    by (rule e3 [THEN conjunct2, THEN conjunct2, THEN conjunct2, THEN conjunct1, THEN mp,
                 OF n3])
  show ?thesis
    by (intro conjI) (rule h1 h2 pl c3 c4 c5 h3 win c6)+
qed

subsection \<open>The Poetry wheel in exe-building mode\<close>

lemma poetry_create_wheel_exe:
  assumes "building_exe w \<noteq> ''0''"
  shows "poetry_create_wheel sys mp od rr w =
     (case node_at (files w) (joinpath (parent mp) ''pyproject.toml'') of
        None \<Rightarrow> (Inl FileNotFoundError, w)
      | Some Dir \<Rightarrow> (Inl IsADirectoryError, w)
      | Some (File c) \<Rightarrow>
          (case toml_poetry_version sys c of
             TomlDecodeError \<Rightarrow> (Inl TOMLDecodeError, w)
           | TomlKeyError \<Rightarrow>
               (Inl (PyException ''Invalid pyproject.toml file, not in poetry format''), w)
           | TomlTypeError \<Rightarrow> (Inl TypeError, w)
           | TomlValue ver \<Rightarrow>
               (Inr None,
                if rr = Some False then w
                else w\<lparr>files := AList.update (joinpath (parent mp) ''pyproject.toml'')
                       (File (write_newlines sys
                                (replace readme_setting [] (universal_newlines c))))
                       (files w)\<rparr>)))"
  using assms
  by (auto simp: poetry_create_wheel_def poetry_read_version_def
        poetry_remove_readme_before_build_def io_defs read_text_def write_text_def
        read_text_mode_def write_text_mode_def
        path_exists_def building_exe_def Let_def
      split: option.splits node.splits toml_result.splits)

text \<open>
  C8.  With \<^verbatim>\<open>CODEENIGMA_BUILDING_EXE\<close> set to anything but \<^verbatim>\<open>"0"\<close>,
  \<^verbatim>\<open>PoetryBundler.create_wheel\<close> runs no subprocess, changes no path other than
  \<^verbatim>\<open>pyproject.toml\<close> and never returns a wheel path.  It still fails on a missing or
  non-Poetry \<^verbatim>\<open>pyproject.toml\<close>, and on a valid one it returns \<^verbatim>\<open>None\<close> after deleting
  the readme setting (the file being read and written in text mode).  This is the
  method the runtime builder calls.
\<close>

theorem poetry_create_wheel_exe_mode:
  assumes "environ w ''CODEENIGMA_BUILDING_EXE'' = Some v" and "v \<noteq> ''0''"
  shows "procs (snd (poetry_create_wheel sys mp od rr w)) = procs w
       \<and> (\<forall>q. q \<noteq> joinpath (parent mp) ''pyproject.toml'' \<longrightarrow>
             node_at (files (snd (poetry_create_wheel sys mp od rr w))) q = node_at (files w) q)
       \<and> (\<forall>x. fst (poetry_create_wheel sys mp od rr w) \<noteq> Inr (Some x))
       \<and> (\<not> path_exists (files w) (joinpath (parent mp) ''pyproject.toml'') \<longrightarrow>
            poetry_create_wheel sys mp od rr w = (Inl FileNotFoundError, w))
       \<and> (\<forall>c. node_at (files w) (joinpath (parent mp) ''pyproject.toml'') = Some (File c) \<longrightarrow>
            (toml_poetry_version sys c = TomlKeyError \<longrightarrow>
               poetry_create_wheel sys mp od rr w =
                 (Inl (PyException ''Invalid pyproject.toml file, not in poetry format''), w))
          \<and> (\<forall>ver. toml_poetry_version sys c = TomlValue ver \<longrightarrow> rr \<noteq> Some False \<longrightarrow>
               poetry_create_wheel sys mp od rr w =
                 (Inr None,
                  w\<lparr>files := AList.update (joinpath (parent mp) ''pyproject.toml'')
                       (File (write_newlines sys
                                (replace readme_setting [] (universal_newlines c))))
                       (files w)\<rparr>)))
       \<and> create_wheel (poetry_bundler sys) mp od w = poetry_create_wheel sys mp od None w"
proof -
  have exe: "building_exe w \<noteq> ''0''"
    using assms by (simp add: building_exe_def)
  have ne: "joinpath (parent mp) ''pyproject.toml'' \<noteq> []"
    by (simp add: joinpath_def)
  show ?thesis
    unfolding poetry_create_wheel_exe [OF exe]
    by (auto simp: path_exists_def node_at_update ne poetry_bundler_def
          poetry_create_wheel_exe [OF exe]
        split: option.splits node.splits toml_result.splits)
qed

theorem poetry_create_wheel_exe_mode_witness:
  \<open>environ ex_pyproject_world ''CODEENIGMA_BUILDING_EXE'' = Some ''1'' \<and> ''1'' \<noteq> ''0''
   \<and> node_at (files ex_pyproject_world) [''pkg'', ''pyproject.toml'']
       = Some (File ''[tool.poetry] version = "1.0" readme = "README.md" name = "rt"'')
   \<and> fst (poetry_create_wheel ex_system [''pkg'', ''codeenigma_runtime''] (Some [''pkg''])
             None ex_pyproject_world) = Inr None
   \<and> procs (snd (poetry_create_wheel ex_system [''pkg'', ''codeenigma_runtime''] (Some [''pkg''])
             None ex_pyproject_world)) = []
   \<and> node_at (files (snd (poetry_create_wheel ex_system [''pkg'', ''codeenigma_runtime'']
             (Some [''pkg'']) None ex_pyproject_world))) [''pkg'', ''pyproject.toml'']
       = Some (File ''[tool.poetry] version = "1.0"  name = "rt"'')\<close>
proof -
  have env: "environ ex_pyproject_world ''CODEENIGMA_BUILDING_EXE'' = Some ''1''"
    by (simp add: ex_pyproject_world_def)
  have v: "''1'' \<noteq> ''0''" by simp
  have pp: "joinpath (parent [''pkg'', ''codeenigma_runtime'']) ''pyproject.toml''
              = [''pkg'', ''pyproject.toml'']"
    by (simp add: joinpath_def parent_def)
  have h1: \<open>node_at (files ex_pyproject_world) [''pkg'', ''pyproject.toml'']
      = Some (File ''[tool.poetry] version = "1.0" readme = "README.md" name = "rt"'')\<close>
    by (simp add: ex_pyproject_world_def node_at_def)
  have u: \<open>universal_newlines ''[tool.poetry] version = "1.0" readme = "README.md" name = "rt"''
           = ''[tool.poetry] version = "1.0" readme = "README.md" name = "rt"''\<close>
    by (simp add: universal_newlines_id)
  have r: \<open>replace readme_setting []
             ''[tool.poetry] version = "1.0" readme = "README.md" name = "rt"''
           = ''[tool.poetry] version = "1.0"  name = "rt"''\<close>
    by (simp add: readme_setting_def replace.simps)
  have wr: \<open>write_newlines ex_system ''[tool.poetry] version = "1.0"  name = "rt"''
           = ''[tool.poetry] version = "1.0"  name = "rt"''\<close>
    by (rule write_newlines_elsewhere) (simp add: ex_system_def)
  have tv: \<open>toml_poetry_version ex_system
              ''[tool.poetry] version = "1.0" readme = "README.md" name = "rt"''
            = TomlValue ''1.0''\<close>
    by (simp add: ex_system_def sublist_Cons_right)
  have pr: "procs ex_pyproject_world = []"
    by (simp add: ex_pyproject_world_def)
  note t = poetry_create_wheel_exe_mode [OF env v, of ex_system "[''pkg'', ''codeenigma_runtime'']"
             "Some [''pkg'']" None, unfolded pp]
  note a = t [THEN conjunct2, THEN conjunct2, THEN conjunct2, THEN conjunct2, THEN conjunct1,
              THEN spec, THEN mp, OF h1]
  note b = a [THEN conjunct2, THEN spec, THEN mp, OF tv, THEN mp, unfolded u r wr]
  have res: \<open>poetry_create_wheel ex_system [''pkg'', ''codeenigma_runtime''] (Some [''pkg''])
               None ex_pyproject_world =
             (Inr None, ex_pyproject_world\<lparr>files := AList.update [''pkg'', ''pyproject.toml'']
                 (File ''[tool.poetry] version = "1.0"  name = "rt"'')
                 (files ex_pyproject_world)\<rparr>)\<close>
    by (rule b) simp
  have c3: \<open>fst (poetry_create_wheel ex_system [''pkg'', ''codeenigma_runtime''] (Some [''pkg''])
             None ex_pyproject_world) = Inr None\<close>
    unfolding res by simp
  have c4: \<open>procs (snd (poetry_create_wheel ex_system [''pkg'', ''codeenigma_runtime'']
             (Some [''pkg'']) None ex_pyproject_world)) = []\<close>
    unfolding res using pr by simp
  have c5: \<open>node_at (files (snd (poetry_create_wheel ex_system [''pkg'', ''codeenigma_runtime'']
             (Some [''pkg'']) None ex_pyproject_world))) [''pkg'', ''pyproject.toml'']
       = Some (File ''[tool.poetry] version = "1.0"  name = "rt"'')\<close>
    unfolding res by (simp add: node_at_update)
  show ?thesis
    by (intro conjI) (rule env v h1 c3 c4 c5)+
qed

subsection \<open>Input checks of the obfuscate command\<close>

lemma files_say [simp]: "files (say m w) = files w"
  by (simp add: say_def)

lemma procs_say [simp]: "procs (say m w) = procs w"
  by (simp add: say_def)

lemma environ_say [simp]: "environ (say m w) = environ w"
  by (simp add: say_def)

text \<open>
  C6.  When the module path does not exist or is not a directory, \<^verbatim>\<open>obfuscate\<close> prints
  the banner and the error, and raises \<^verbatim>\<open>typer.Exit(1)\<close>; no file is written, no
  subprocess runs, and the outcome does not depend on the orchestrator, the strategy
  or the extension classes, which are never reached.
\<close>

theorem obfuscate_rejects_module_path:
  assumes "\<not> path_exists (files w) module_path \<or> \<not> is_dir (files w) module_path"
  shows "obfuscate sys col module_path expiration_date output_dir verbose w =
           (Inl (TyperExit 1),
            say (if path_exists (files w) module_path then msg_not_dir
                 else msg_not_exist module_path) (display_banner sys w))
       \<and> files (snd (obfuscate sys col module_path expiration_date output_dir verbose w))
           = files w
       \<and> procs (snd (obfuscate sys col module_path expiration_date output_dir verbose w))
           = procs w
       \<and> (\<forall>col'. obfuscate sys col' module_path expiration_date output_dir verbose w
                 = obfuscate sys col module_path expiration_date output_dir verbose w)"
  using assms
  by (auto simp: obfuscate_def check_module_path_def and_then_def display_banner_def)

theorem obfuscate_rejects_module_path_witness:
  "\<not> path_exists (files ex_app_world) [''proj'', ''missing'']
   \<and> \<not> is_dir (files ex_app_world) [''notes.txt'']
   \<and> fst (obfuscate ex_system ex_collaborators [''proj'', ''missing''] None [''cedist''] False
            ex_app_world) = Inl (TyperExit 1)
   \<and> console (snd (obfuscate ex_system ex_collaborators [''notes.txt''] None [''cedist''] False
            ex_app_world)) = [banner ex_system, msg_not_dir]
   \<and> files (snd (obfuscate ex_system ex_collaborators [''notes.txt''] None [''cedist''] False
            ex_app_world)) = files ex_app_world"
proof -
  have h1: "\<not> path_exists (files ex_app_world) [''proj'', ''missing'']
      \<or> \<not> is_dir (files ex_app_world) [''proj'', ''missing'']"
    by (simp add: ex_app_world_def path_exists_def node_at_def)
  have h2: "\<not> path_exists (files ex_app_world) [''notes.txt'']
      \<or> \<not> is_dir (files ex_app_world) [''notes.txt'']"
    by (simp add: ex_app_world_def is_dir_def node_at_def)
  have e: "path_exists (files ex_app_world) [''notes.txt'']"
    by (simp add: ex_app_world_def path_exists_def node_at_def)
  have c: "console ex_app_world = []"
    by (simp add: ex_app_world_def)
  note t1 = obfuscate_rejects_module_path [OF h1, of ex_system ex_collaborators None "[''cedist'']" False]
  note t2 = obfuscate_rejects_module_path [OF h2, of ex_system ex_collaborators None "[''cedist'']" False]
  have g1: "\<not> path_exists (files ex_app_world) [''proj'', ''missing'']"
    by (simp add: ex_app_world_def path_exists_def node_at_def)
  have g2: "\<not> is_dir (files ex_app_world) [''notes.txt'']"
    by (simp add: ex_app_world_def is_dir_def node_at_def)
  show ?thesis
    using g1 g2 t1 t2 e c by (simp add: say_def display_banner_def)
qed

text \<open>
  C3, amended.  For a non-empty expiration string that \<^verbatim>\<open>fromisoformat\<close> rejects, or
  that parses to an aware datetime before the current time, \<^verbatim>\<open>obfuscate\<close> raises
  \<^verbatim>\<open>typer.Exit(1)\<close> with no file written, no subprocess run and the collaborators never
  reached; for a valid module directory the message printed is the one about the date.
\<close>

theorem obfuscate_rejects_expiration:
  assumes "s \<noteq> []"
      and "fromisoformat sys s = None
           \<or> (\<exists>i. fromisoformat sys s = Some (Aware i) \<and> i < now_utc sys)"
  shows "fst (obfuscate sys col module_path (Some s) output_dir verbose w) = Inl (TyperExit 1)
       \<and> files (snd (obfuscate sys col module_path (Some s) output_dir verbose w)) = files w
       \<and> procs (snd (obfuscate sys col module_path (Some s) output_dir verbose w)) = procs w
       \<and> (\<forall>col'. obfuscate sys col' module_path (Some s) output_dir verbose w
                 = obfuscate sys col module_path (Some s) output_dir verbose w)
       \<and> (is_dir (files w) module_path \<longrightarrow>
            obfuscate sys col module_path (Some s) output_dir verbose w =
              (Inl (TyperExit 1),
               say (if fromisoformat sys s = None then msg_bad_date else msg_past_date)
                 (display_banner sys w)))"
  using assms
  by (auto simp: obfuscate_def check_module_path_def parse_expiration_def check_future_def
        and_then_def display_banner_def is_dir_def path_exists_def)

text \<open>
  C3, as stated, fails for the empty string: it is not an ISO datetime, yet the guard
  \<^verbatim>\<open>if expiration_date:\<close> skips the parse, the orchestrator is constructed and run,
  and it writes its output.
\<close>

theorem obfuscate_empty_expiration_runs:
  "fromisoformat ex_system [] = None
   \<and> fst (obfuscate ex_system ex_collaborators [''proj'', ''myapp''] (Some []) [''cedist'']
            False ex_app_world) = Inr ()
   \<and> node_at (files (snd (obfuscate ex_system ex_collaborators [''proj'', ''myapp''] (Some [])
            [''cedist''] False ex_app_world))) [''cedist'', ''myapp'', ''app.py'']
       = Some (File ''from codeenigma_runtime import execute_secure_code'')
   \<and> node_at (files ex_app_world) [''cedist'', ''myapp'', ''app.py''] = None"
  by code_simp

theorem obfuscate_rejects_expiration_witness:
  "''not-a-date'' \<noteq> []
   \<and> (fromisoformat ex_system ''not-a-date'' = None
      \<or> (\<exists>i. fromisoformat ex_system ''not-a-date'' = Some (Aware i) \<and> i < now_utc ex_system))
   \<and> ''2020-01-01T00:00:00+00:00'' \<noteq> []
   \<and> (fromisoformat ex_system ''2020-01-01T00:00:00+00:00'' = None
      \<or> (\<exists>i. fromisoformat ex_system ''2020-01-01T00:00:00+00:00'' = Some (Aware i)
               \<and> i < now_utc ex_system))
   \<and> is_dir (files ex_app_world) [''proj'', ''myapp'']
   \<and> obfuscate ex_system ex_collaborators [''proj'', ''myapp''] (Some ''not-a-date'')
        [''cedist''] False ex_app_world
       = (Inl (TyperExit 1), say msg_bad_date (display_banner ex_system ex_app_world))
   \<and> obfuscate ex_system ex_collaborators [''proj'', ''myapp'']
        (Some ''2020-01-01T00:00:00+00:00'') [''cedist''] False ex_app_world
       = (Inl (TyperExit 1), say msg_past_date (display_banner ex_system ex_app_world))"
proof -
  have a1: "''not-a-date'' \<noteq> []" by simp
  have a2: "fromisoformat ex_system ''not-a-date'' = None
      \<or> (\<exists>i. fromisoformat ex_system ''not-a-date'' = Some (Aware i) \<and> i < now_utc ex_system)"
    by (simp add: ex_system_def ex_fromisoformat_def)
  have b1: "''2020-01-01T00:00:00+00:00'' \<noteq> []" by simp
  have b2: "fromisoformat ex_system ''2020-01-01T00:00:00+00:00'' = None
      \<or> (\<exists>i. fromisoformat ex_system ''2020-01-01T00:00:00+00:00'' = Some (Aware i)
               \<and> i < now_utc ex_system)"
    by (simp add: ex_system_def ex_fromisoformat_def)
  have d: "is_dir (files ex_app_world) [''proj'', ''myapp'']"
    by (simp add: ex_app_world_def is_dir_def node_at_def)
  have n1: "fromisoformat ex_system ''not-a-date'' = None"
    by (simp add: ex_system_def ex_fromisoformat_def)
  have n2: "fromisoformat ex_system ''2020-01-01T00:00:00+00:00'' \<noteq> None"
    by (simp add: ex_system_def ex_fromisoformat_def)
  note t1 = obfuscate_rejects_expiration [OF a1 a2, of ex_collaborators "[''proj'', ''myapp'']"
              "[''cedist'']" False ex_app_world]
  note t2 = obfuscate_rejects_expiration [OF b1 b2, of ex_collaborators "[''proj'', ''myapp'']"
              "[''cedist'']" False ex_app_world]
  have r1: "obfuscate ex_system ex_collaborators [''proj'', ''myapp''] (Some ''not-a-date'')
        [''cedist''] False ex_app_world
       = (Inl (TyperExit 1), say msg_bad_date (display_banner ex_system ex_app_world))"
    using t1 d n1 by simp
  have r2: "obfuscate ex_system ex_collaborators [''proj'', ''myapp'']
        (Some ''2020-01-01T00:00:00+00:00'') [''cedist''] False ex_app_world
       = (Inl (TyperExit 1), say msg_past_date (display_banner ex_system ex_app_world))"
    using t2 d n2 by simp
  show ?thesis
    using a1 a2 b1 b2 d r1 r2 by blast
qed

text \<open>
  A date without an offset, such as the \<^verbatim>\<open>YYYY-MM-DD\<close> of the option's help text, parses
  to a naive datetime; comparing it with the aware current time raises \<^verbatim>\<open>TypeError\<close>,
  which nothing in the command catches.  This happens for past and future dates alike,
  before the orchestrator is reached.
\<close>

lemma obfuscate_naive_expiration_raises:
  assumes "s \<noteq> []" and "fromisoformat sys s = Some (Naive n)"
      and "is_dir (files w) module_path"
  shows "obfuscate sys col module_path (Some s) output_dir verbose w
           = (Inl TypeError, display_banner sys w)"
  using assms
  by (simp add: obfuscate_def check_module_path_def parse_expiration_def check_future_def
        and_then_def display_banner_def is_dir_def path_exists_def)

subsection \<open>A compile that leaves no compiled module\<close>

lemma io_result: "fst r = x \<Longrightarrow> r = (x, snd r)"
  by (cases r) simp

lemma and_then_ok:
  "fst (m w) = Inr x \<Longrightarrow> and_then m f w = f x (snd (m w))"
  by (cases "m w") (simp add: and_then_def)

lemma and_then_error:
  "fst (m w) = Inl e \<Longrightarrow> and_then m f w = (Inl e, snd (m w))"
  by (cases "m w") (simp add: and_then_def)

lemma collect_extension_no_match:
  "glob (files w) location (''*'' @ ext) = [] \<Longrightarrow>
   collect_extension ext location output_dir w = (Inl IndexError, w)"
  by (simp add: collect_extension_def and_then_def fs_get_def last_item_def)

lemma standard_collect_no_match:
  "glob (files w) location (''*'' @ EXTENSION_COMPILED_MODULE sys) = [] \<Longrightarrow>
   standard_collect sys location output_dir w = (Inl IndexError, w)"
  by (simp add: standard_collect_def and_then_def fs_get_def last_item_def)

lemma check_for_setuptools_project_world:
  "snd (check_for_setuptools_project sys root w) = w"
  by (simp add: check_for_setuptools_project_def split: sum.splits toml_result.splits)

lemma run_pyinstaller_no_match:
  "glob (files w) (joinpath (joinpath output_dir (name (parent module_path))) ''codeenigma_runtime'')
     (''codeenigma_runtime*.'' @ EXTENSION_COMPILED_MODULE sys) = [] \<Longrightarrow>
   run_pyinstaller sys module_path exe_name output_dir w = (Inl IndexError, w)"
  by (simp add: run_pyinstaller_def and_then_def fs_get_def last_item_def Let_def)

text \<open>
  C9.  When the compile subprocess has succeeded and nothing in the build location
  matches the pattern of compiled modules, \<^verbatim>\<open>create_extension\<close> of the Poetry, the UV
  and the standard bundler raises \<^verbatim>\<open>IndexError\<close>, in the world the compile left.  In the
  \<^verbatim>\<open>build\<close> command the lookup of the compiled runtime raises \<^verbatim>\<open>IndexError\<close> in the
  same way; the command's handler reports it and exits with code 1.
\<close>

theorem missing_artifact_raises_IndexError:
  "(path_exists (files w) (joinpath (setup_location (files w) mp) ''setup.py'')
      \<and> fst (poetry_build_ext sys (setup_location (files w) mp) w) = Inr ()
      \<and> glob (files (snd (poetry_build_ext sys (setup_location (files w) mp) w)))
           (setup_location (files w) mp) (''*'' @ EXTENSION_COMPILED_MODULE sys) = []
     \<longrightarrow> poetry_create_extension sys mp od w =
           (Inl IndexError, snd (poetry_build_ext sys (setup_location (files w) mp) w)))
   \<and> (path_exists (files w) (joinpath (setup_location (files w) mp) ''setup.py'')
      \<and> fst (uv_build_ext sys (setup_location (files w) mp) w) = Inr ()
      \<and> glob (files (snd (uv_build_ext sys (setup_location (files w) mp) w)))
           (setup_location (files w) mp) (''*'' @ uv_EXTENSION_COMPILED_MODULE sys) = []
     \<longrightarrow> uv_create_extension sys mp od w =
           (Inl IndexError, snd (uv_build_ext sys (setup_location (files w) mp) w)))
   \<and> (fst (check_for_setuptools_project sys (parent mp) w) = Inr ()
      \<and> fst (subprocess_run sys [sys_executable sys, ''setup.py'', ''build_ext'', ''--inplace'']
                (setup_location (files w) mp) w) = Inr ()
      \<and> glob (files (snd (subprocess_run sys
                             [sys_executable sys, ''setup.py'', ''build_ext'', ''--inplace'']
                             (setup_location (files w) mp) w)))
           (setup_location (files w) mp) (''*'' @ EXTENSION_COMPILED_MODULE sys) = []
     \<longrightarrow> standard_create_extension sys mp od w =
           (Inl IndexError,
            snd (subprocess_run sys [sys_executable sys, ''setup.py'', ''build_ext'', ''--inplace'']
                   (setup_location (files w) mp) w)))
   \<and> (fst (obfuscate sys col mp expiration outd verbose (set_building_exe ''1'' w)) = Inr ()
      \<and> fst (merge_runtime mp outd (say ''Starting pyinstaller build...''
                (snd (obfuscate sys col mp expiration outd verbose (set_building_exe ''1'' w)))))
          = Inr ()
      \<and> glob (files (snd (merge_runtime mp outd (say ''Starting pyinstaller build...''
                (snd (obfuscate sys col mp expiration outd verbose (set_building_exe ''1'' w)))))))
           (joinpath (joinpath outd (name (parent mp))) ''codeenigma_runtime'')
           (''codeenigma_runtime*.'' @ EXTENSION_COMPILED_MODULE sys) = []
     \<longrightarrow> run_pyinstaller sys mp exe_name outd
           (snd (merge_runtime mp outd (say ''Starting pyinstaller build...''
              (snd (obfuscate sys col mp expiration outd verbose (set_building_exe ''1'' w))))))
         = (Inl IndexError,
            snd (merge_runtime mp outd (say ''Starting pyinstaller build...''
              (snd (obfuscate sys col mp expiration outd verbose (set_building_exe ''1'' w))))))
       \<and> cli_build sys col mp exe_name expiration outd verbose w
         = (Inl (TyperExit 1),
            set_building_exe ''0'' (say ''Error during build''
              (snd (merge_runtime mp outd (say ''Starting pyinstaller build...''
                (snd (obfuscate sys col mp expiration outd verbose
                        (set_building_exe ''1'' w)))))))))"
proof (intro conjI impI; (elim conjE)?)
  let ?loc = "setup_location (files w) mp"
  {
    assume s: "path_exists (files w) (joinpath ?loc ''setup.py'')"
       and b: "fst (poetry_build_ext sys ?loc w) = Inr ()"
       and g: "glob (files (snd (poetry_build_ext sys ?loc w))) ?loc
                 (''*'' @ EXTENSION_COMPILED_MODULE sys) = []"
    show "poetry_create_extension sys mp od w =
            (Inl IndexError, snd (poetry_build_ext sys ?loc w))"
      using s by (simp add: poetry_create_extension_def and_then_ok [where m = "poetry_build_ext sys ?loc" and w = w, OF b]
                    collect_extension_no_match [OF g])
  }
  {
    assume s: "path_exists (files w) (joinpath ?loc ''setup.py'')"
       and b: "fst (uv_build_ext sys ?loc w) = Inr ()"
       and g: "glob (files (snd (uv_build_ext sys ?loc w))) ?loc
                 (''*'' @ uv_EXTENSION_COMPILED_MODULE sys) = []"
    show "uv_create_extension sys mp od w = (Inl IndexError, snd (uv_build_ext sys ?loc w))"
      using s by (simp add: uv_create_extension_def and_then_ok [where m = "uv_build_ext sys ?loc" and w = w, OF b]
                    collect_extension_no_match [OF g])
  }
  let ?run = "subprocess_run sys [sys_executable sys, ''setup.py'', ''build_ext'', ''--inplace'']
                ?loc"
  {
    assume c: "fst (check_for_setuptools_project sys (parent mp) w) = Inr ()"
       and b: "fst (?run w) = Inr ()"
       and g: "glob (files (snd (?run w))) ?loc (''*'' @ EXTENSION_COMPILED_MODULE sys) = []"
    show "standard_create_extension sys mp od w = (Inl IndexError, snd (?run w))"
      by (simp add: standard_create_extension_def and_then_ok [where m = "check_for_setuptools_project sys (parent mp)" and w = w, OF c]
            check_for_setuptools_project_world and_then_ok [where m = ?run and w = w, OF b]
            standard_collect_no_match [OF g])
  }
  let ?w1 = "snd (obfuscate sys col mp expiration outd verbose (set_building_exe ''1'' w))"
  let ?w2 = "snd (merge_runtime mp outd (say ''Starting pyinstaller build...'' ?w1))"
  {
    assume o: "fst (obfuscate sys col mp expiration outd verbose (set_building_exe ''1'' w))
                 = Inr ()"
       and m: "fst (merge_runtime mp outd (say ''Starting pyinstaller build...'' ?w1)) = Inr ()"
       and g: "glob (files ?w2) (joinpath (joinpath outd (name (parent mp))) ''codeenigma_runtime'')
                 (''codeenigma_runtime*.'' @ EXTENSION_COMPILED_MODULE sys) = []"
    show "run_pyinstaller sys mp exe_name outd ?w2 = (Inl IndexError, ?w2)"
      using g by (rule run_pyinstaller_no_match)
    show "cli_build sys col mp exe_name expiration outd verbose w
            = (Inl (TyperExit 1), set_building_exe ''0'' (say ''Error during build'' ?w2))"
    proof -
      obtain w1 where ob:
          "obfuscate sys col mp expiration outd verbose (set_building_exe ''1'' w) = (Inr (), w1)"
        using o by (cases "obfuscate sys col mp expiration outd verbose (set_building_exe ''1'' w)")
                   auto
      have body: "and_then (merge_runtime mp outd) (\<lambda>u. run_pyinstaller sys mp exe_name outd)
                    (say ''Starting pyinstaller build...'' ?w1) = (Inl IndexError, ?w2)"
        by (simp add: and_then_ok [where m = "merge_runtime mp outd", OF m]
              run_pyinstaller_no_match [OF g])
      show ?thesis
        using body by (simp add: cli_build_def ob)
    qed
  }
qed

theorem missing_artifact_witness:
  "path_exists (files ex_setup_world) [''cedist'', ''setup.py'']
   \<and> fst (poetry_build_ext ex_silent_system [''cedist''] ex_setup_world) = Inr ()
   \<and> glob (files (snd (poetry_build_ext ex_silent_system [''cedist''] ex_setup_world)))
         [''cedist''] ''*.so'' = []
   \<and> fst (poetry_create_extension ex_silent_system [''cedist'', ''codeenigma_runtime''] None
            ex_setup_world) = Inl IndexError
   \<and> fst (uv_create_extension ex_silent_system [''cedist'', ''codeenigma_runtime''] None
            ex_setup_world) = Inl IndexError
   \<and> fst (standard_create_extension ex_silent_system [''cedist'', ''codeenigma_runtime''] None
            ex_setup_world) = Inl IndexError
   \<and> fst (obfuscate ex_silent_system ex_collaborators [''proj'', ''myapp''] None [''cedist'']
            False (set_building_exe ''1'' ex_setup_world)) = Inr ()
   \<and> fst (cli_build ex_silent_system ex_collaborators [''proj'', ''myapp''] ''MyApp'' None
            [''cedist''] False ex_setup_world) = Inl (TyperExit 1)"
proof -
  note t1 = missing_artifact_raises_IndexError
              [where w = ex_setup_world and mp = "[''cedist'', ''codeenigma_runtime'']"
                 and sys = ex_silent_system and od = None]
  note t2 = missing_artifact_raises_IndexError
              [where w = ex_setup_world and mp = "[''proj'', ''myapp'']"
                 and sys = ex_silent_system and col = ex_collaborators and expiration = None
                 and outd = "[''cedist'']" and verbose = False and exe_name = "''MyApp''"]
  have p: "path_exists (files ex_setup_world) (joinpath (setup_location (files ex_setup_world) [''cedist'', ''codeenigma_runtime'']) ''setup.py'')
      \<and> fst (poetry_build_ext ex_silent_system (setup_location (files ex_setup_world) [''cedist'', ''codeenigma_runtime'']) ex_setup_world) = Inr ()
      \<and> glob (files (snd (poetry_build_ext ex_silent_system (setup_location (files ex_setup_world) [''cedist'', ''codeenigma_runtime'']) ex_setup_world)))
           (setup_location (files ex_setup_world) [''cedist'', ''codeenigma_runtime'']) (''*'' @ EXTENSION_COMPILED_MODULE ex_silent_system) = []"
    by code_simp
  have u: "path_exists (files ex_setup_world) (joinpath (setup_location (files ex_setup_world) [''cedist'', ''codeenigma_runtime'']) ''setup.py'')
      \<and> fst (uv_build_ext ex_silent_system (setup_location (files ex_setup_world) [''cedist'', ''codeenigma_runtime'']) ex_setup_world) = Inr ()
      \<and> glob (files (snd (uv_build_ext ex_silent_system (setup_location (files ex_setup_world) [''cedist'', ''codeenigma_runtime'']) ex_setup_world)))
           (setup_location (files ex_setup_world) [''cedist'', ''codeenigma_runtime'']) (''*'' @ uv_EXTENSION_COMPILED_MODULE ex_silent_system) = []"
    by code_simp
  have s: "fst (check_for_setuptools_project ex_silent_system (parent [''cedist'', ''codeenigma_runtime'']) ex_setup_world) = Inr ()
      \<and> fst (subprocess_run ex_silent_system [sys_executable ex_silent_system, ''setup.py'', ''build_ext'', ''--inplace''] (setup_location (files ex_setup_world) [''cedist'', ''codeenigma_runtime'']) ex_setup_world) = Inr ()
      \<and> glob (files (snd (subprocess_run ex_silent_system [sys_executable ex_silent_system, ''setup.py'', ''build_ext'', ''--inplace''] (setup_location (files ex_setup_world) [''cedist'', ''codeenigma_runtime'']) ex_setup_world)))
           (setup_location (files ex_setup_world) [''cedist'', ''codeenigma_runtime'']) (''*'' @ EXTENSION_COMPILED_MODULE ex_silent_system) = []"
    by code_simp
  have b: "fst (obfuscate ex_silent_system ex_collaborators [''proj'', ''myapp''] None [''cedist''] False (set_building_exe ''1'' ex_setup_world)) = Inr ()
      \<and> fst (merge_runtime [''proj'', ''myapp''] [''cedist''] (say ''Starting pyinstaller build...'' (snd (obfuscate ex_silent_system ex_collaborators [''proj'', ''myapp''] None [''cedist''] False (set_building_exe ''1'' ex_setup_world))))) = Inr ()
      \<and> glob (files (snd (merge_runtime [''proj'', ''myapp''] [''cedist''] (say ''Starting pyinstaller build...'' (snd (obfuscate ex_silent_system ex_collaborators [''proj'', ''myapp''] None [''cedist''] False (set_building_exe ''1'' ex_setup_world)))))))
           (joinpath (joinpath [''cedist''] (name (parent [''proj'', ''myapp'']))) ''codeenigma_runtime'')
           (''codeenigma_runtime*.'' @ EXTENSION_COMPILED_MODULE ex_silent_system) = []"
    by code_simp
  have c3: "fst (poetry_create_extension ex_silent_system [''cedist'', ''codeenigma_runtime''] None ex_setup_world) = Inl IndexError"
    using t1 [THEN conjunct1, THEN mp, OF p] by simp
  have c4: "fst (uv_create_extension ex_silent_system [''cedist'', ''codeenigma_runtime''] None ex_setup_world) = Inl IndexError"
    using t1 [THEN conjunct2, THEN conjunct1, THEN mp, OF u] by simp
  have c5: "fst (standard_create_extension ex_silent_system [''cedist'', ''codeenigma_runtime''] None ex_setup_world) = Inl IndexError"
    using t1 [THEN conjunct2, THEN conjunct2, THEN conjunct1, THEN mp, OF s] by simp
  have c7: "fst (cli_build ex_silent_system ex_collaborators [''proj'', ''myapp''] ''MyApp'' None
                   [''cedist''] False ex_setup_world) = Inl (TyperExit 1)"
    using t2 [THEN conjunct2, THEN conjunct2, THEN conjunct2, THEN mp, OF b] by simp
  have h1: "path_exists (files ex_setup_world) [''cedist'', ''setup.py'']"
    by code_simp
  have h2: "fst (poetry_build_ext ex_silent_system [''cedist''] ex_setup_world) = Inr ()"
    by code_simp
  have h3: "glob (files (snd (poetry_build_ext ex_silent_system [''cedist''] ex_setup_world)))
              [''cedist''] ''*.so'' = []"
    by code_simp
  have o1: "fst (obfuscate ex_silent_system ex_collaborators [''proj'', ''myapp''] None [''cedist''] False (set_building_exe ''1'' ex_setup_world)) = Inr ()"
    using b by blast
  show ?thesis
    using h1 h2 h3 c3 c4 c5 o1 c7 by blast
qed

subsection \<open>Which paths the file operations touch\<close>

lemma mkdir_node_at:
  "mkdir t p = Inr t' \<Longrightarrow> node_at t' q = (if q = p then Some Dir else node_at t q)"
  by (cases "p = []")
     (auto simp: mkdir_def node_at_update split: option.splits node.splits,
      auto simp: node_at_def)

lemma unlink_node_at:
  "unlink t p = Inr t' \<Longrightarrow> node_at t' q = (if q = p then None else node_at t q)"
  by (auto simp: unlink_def node_at_delete split: option.splits node.splits)
     (auto simp: node_at_def)

lemma unlink_ok:
  "node_at t p \<noteq> Some Dir \<Longrightarrow> \<exists>t'. unlink t p = Inr t'"
  by (auto simp: unlink_def split: option.splits node.splits)

lemma rmdir_suppressed_other:
  "q \<noteq> p \<Longrightarrow> node_at (rmdir_suppressed t p) q = node_at t q"
  by (auto simp: rmdir_suppressed_def rmdir_def node_at_delete)

lemma rmdir_suppressed_absent:
  "node_at t q = None \<Longrightarrow> node_at (rmdir_suppressed t p) q = None"
  by (auto simp: rmdir_suppressed_def rmdir_def node_at_delete)

lemma rmdir_suppressed_file:
  "node_at t q = Some (File s) \<Longrightarrow> node_at (rmdir_suppressed t p) q = Some (File s)"
  by (auto simp: rmdir_suppressed_def rmdir_def node_at_delete)

lemma makedirs_fold_error:
  "fold (\<lambda>d r. case r of Inl e \<Rightarrow> Inl e
                 | Inr t' \<Rightarrow> (case node_at t' d of
                                 Some Dir \<Rightarrow> Inr t'
                               | Some (File x) \<Rightarrow> Inl FileExistsError
                               | None \<Rightarrow> Inr (AList.update d Dir t'))) ds (Inl e) = Inl e"
  by (induction ds) simp_all

lemma makedirs_fold_absent:
  "fold (\<lambda>d r. case r of Inl e \<Rightarrow> Inl e
                 | Inr t' \<Rightarrow> (case node_at t' d of
                                 Some Dir \<Rightarrow> Inr t'
                               | Some (File x) \<Rightarrow> Inl FileExistsError
                               | None \<Rightarrow> Inr (AList.update d Dir t'))) ds (Inr t) = Inr t'
   \<Longrightarrow> q \<notin> set ds \<Longrightarrow> node_at t' q = node_at t q"
proof (induction ds arbitrary: t)
  case Nil
  then show ?case by simp
next
  case (Cons d ds)
  show ?case
  proof (cases "node_at t d")
    case None
    then have d: "d \<noteq> []" by (auto simp: node_at_def)
    from Cons.prems None have "node_at t' q = node_at (AList.update d Dir t) q"
      by (intro Cons.IH) auto
    with Cons.prems d show ?thesis by (simp add: node_at_update)
  next
    case (Some n)
    show ?thesis
    proof (cases n)
      case (File x)
      with Some Cons.prems show ?thesis by (simp add: makedirs_fold_error)
    next
      case Dir
      with Some Cons.prems show ?thesis by (intro Cons.IH) auto
    qed
  qed
qed

lemma makedirs_other:
  "makedirs t p = Inr t' \<Longrightarrow> \<not> prefix q p \<Longrightarrow> node_at t' q = node_at t q"
  unfolding makedirs_def by (erule makedirs_fold_absent) (simp add: in_set_prefixes)

lemma map_of_moved_none:
  "\<not> prefix dst q \<Longrightarrow>
   map_of (map (\<lambda>(k, v). (dst @ drop (length src) k, v)) xs) q = None"
  by (induction xs) (auto simp: prefix_def)

lemma map_of_filter_none:
  "map_of t q = None \<Longrightarrow> map_of (filter P t) q = None"
  by (induction t) (auto split: if_splits)

lemma move_tree_absent:
  "node_at t q = None \<Longrightarrow> \<not> prefix dst q \<Longrightarrow> node_at (move_tree t src dst) q = None"
  by (auto simp: node_at_def move_tree_def map_add_def map_of_moved_none map_of_filter_none
           split: if_splits option.splits)

lemma prefix_joinpath: "prefix p (joinpath p n)"
  by (simp add: joinpath_def)

lemma shutil_move_absent:
  assumes "shutil_move t src dst = Inr t'" and "node_at t q = None"
      and "\<not> prefix q dst" and "\<not> prefix dst q"
  shows "node_at t' q = None"
proof -
  define real_dst where "real_dst = (if is_dir t dst then joinpath dst (name src) else dst)"
  have pd: "prefix dst real_dst"
    by (simp add: real_dst_def prefix_joinpath)
  have n1: "\<not> prefix real_dst q"
    using pd assms(4) by (meson prefix_order.order_trans)
  have n2: "\<not> prefix q real_dst"
  proof
    assume "prefix q real_dst"
    with pd have "prefix q dst \<or> prefix dst q"
      by (meson prefix_same_cases)
    with assms(3,4) show False by simp
  qed
  have n3: "\<not> prefix q (parent real_dst)"
    using n2 by (metis parent_def prefix_order.order_trans prefixeq_butlast)
  have ne: "q \<noteq> real_dst" using n1 by auto
  have rne: "real_dst \<noteq> []" using n1 by auto
  show ?thesis
  proof (cases "is_dir t dst \<and> src = dst")
    case True
    with assms(1,2) show ?thesis by (simp add: shutil_move_def)
  next
    case False
    show ?thesis
    proof (cases "node_at t src")
      case None
      with assms(1) False show ?thesis
        by (simp add: shutil_move_def Let_def split: if_splits)
    next
      case (Some n)
      show ?thesis
      proof (cases n)
        case (File s)
        with Some assms(1) False
        have "t' = AList.update real_dst (File s) (AList.delete src t)"
          by (auto simp: shutil_move_def Let_def real_dst_def
                   split: if_splits option.splits node.splits)
        with assms(2) ne rne show ?thesis
          by (simp add: node_at_update node_at_delete)
      next
        case Dir
        with Some assms(1) False
        obtain t1 where m: "makedirs t (parent real_dst) = Inr t1"
                    and t': "t' = move_tree t1 src real_dst"
          by (auto simp: shutil_move_def Let_def real_dst_def
                   split: if_splits sum.splits)
        have "node_at t1 q = None"
          using makedirs_other [OF m n3] assms(2) by simp
        then show ?thesis
          unfolding t' using n1 by (rule move_tree_absent)
      qed
    qed
  qed
qed

subsection \<open>A failing compile\<close>

lemma joinpath_eq_iff [simp]:
  "n \<noteq> [] \<Longrightarrow> m \<noteq> [] \<Longrightarrow> (joinpath p n = joinpath p m) = (n = m)"
  by (simp add: joinpath_def)

lemma joinpath_nonempty [simp]: "n \<noteq> [] \<Longrightarrow> joinpath p n \<noteq> []"
  by (simp add: joinpath_def)

lemma fs_do_ok: "f (files w) = Inr t \<Longrightarrow> fs_do f w = (Inr (), w\<lparr>files := t\<rparr>)"
  by (simp add: fs_do_def)

lemma fs_do_error: "f (files w) = Inl e \<Longrightarrow> fs_do f w = (Inl e, w)"
  by (simp add: fs_do_def)

lemma build_write_sources_files:
  assumes "fst (build_write_sources sys b out w) = Inr ()"
  shows "node_at (files (snd (build_write_sources sys b out w))) (joinpath out ''setup.py'')
           = Some (File (safe_substitute sys (setup_py_template sys)
                           [(''version'', repr sys (version sys))]))
       \<and> node_at (files (snd (build_write_sources sys b out w)))
             (joinpath out ''codeenigma_runtime.pyx'')
           = Some (File (runtime_source b))"
  using assms
  by (auto simp: build_write_sources_def prepare_runtime_code_def create_cython_setup_def
        and_then_def fs_do_def write_text_node_at
      split: sum.splits prod.splits)

lemma build_compile_failure:
  "fst (build_compile sys b out w) = Inl e \<Longrightarrow>
   build sys b out w = (Inl e, snd (build_compile sys b out w))"
  by (simp add: build_def and_then_error [where m = "build_compile sys b out"])

lemma build_compile_create_wheel:
  "build_compile sys (b\<lparr>bundler := (bundler b)\<lparr>create_wheel := cw\<rparr>\<rparr>) out w
     = build_compile sys b out w"
  by (simp add: build_compile_def build_write_sources_def prepare_runtime_code_def
        runtime_source_def)

lemma subprocess_run_keeps:
  assumes "process_keeps sys q"
  shows "node_at (files (snd (subprocess_run sys cmd cwd w))) q = node_at (files w) q"
proof -
  have "node_at (snd (run_process sys cmd cwd (files w))) q = node_at (files w) q"
    using assms by (simp add: process_keeps_def)
  then show ?thesis
    by (cases "run_process sys cmd cwd (files w)")
       (auto simp: subprocess_run_def Let_def split: proc_result.splits)
qed

lemma poetry_build_ext_keeps:
  assumes "process_keeps sys q"
  shows "node_at (files (snd (poetry_build_ext sys loc w))) q = node_at (files w) q"
proof -
  let ?first = "subprocess_run sys
                  [''poetry'', ''run'', ''python'', ''setup.py'', ''build_ext'', ''--inplace''] loc w"
  have one: "node_at (files (snd ?first)) q = node_at (files w) q"
    using assms by (rule subprocess_run_keeps)
  have two: "node_at (files (snd (subprocess_run sys cmd loc (snd ?first)))) q
               = node_at (files w) q" for cmd
    using subprocess_run_keeps [OF assms, of cmd loc "snd ?first"] one by simp
  show ?thesis
    using one two
    by (cases ?first) (auto simp: poetry_build_ext_def split: sum.splits)
qed

lemma collect_extension_failure_world:
  "fst (collect_extension ext loc None w) = Inl e \<Longrightarrow> snd (collect_extension ext loc None w) = w"
  by (auto simp: collect_extension_def io_defs split: sum.splits)

lemma poetry_create_extension_failure_keeps:
  assumes "process_keeps sys q"
      and "fst (poetry_create_extension sys mp None w) = Inl e"
  shows "node_at (files (snd (poetry_create_extension sys mp None w))) q = node_at (files w) q"
proof (cases "path_exists (files w) (joinpath (setup_location (files w) mp) ''setup.py'')")
  case False
  then show ?thesis by (simp add: poetry_create_extension_def Let_def)
next
  case True
  let ?loc = "setup_location (files w) mp"
  let ?c = "collect_extension (EXTENSION_COMPILED_MODULE sys) ?loc None"
  have eq: "poetry_create_extension sys mp None w
              = and_then (poetry_build_ext sys ?loc) (\<lambda>u. ?c) w"
    using True by (simp add: poetry_create_extension_def Let_def)
  show ?thesis
  proof (cases "fst (poetry_build_ext sys ?loc w)")
    case (Inl e')
    then show ?thesis
      unfolding eq
      by (simp add: and_then_error [where m = "poetry_build_ext sys ?loc"]
            poetry_build_ext_keeps [OF assms(1)])
  next
    case (Inr u)
    then have r: "poetry_create_extension sys mp None w = ?c (snd (poetry_build_ext sys ?loc w))"
      unfolding eq by (simp add: and_then_ok [where m = "poetry_build_ext sys ?loc"])
    with assms(2) have "snd (?c (snd (poetry_build_ext sys ?loc w)))
                          = snd (poetry_build_ext sys ?loc w)"
      by (auto intro: collect_extension_failure_world)
    then show ?thesis
      unfolding r by (simp add: poetry_build_ext_keeps [OF assms(1)])
  qed
qed

text \<open>
  C2.  When the sources have been written and \<^verbatim>\<open>create_extension\<close> raises, \<^verbatim>\<open>build\<close>
  raises the same error and ends in the world \<^verbatim>\<open>create_extension\<close> left: nothing is
  deleted or added afterwards.  The result is the same whatever \<^verbatim>\<open>create_wheel\<close> is, so
  it is never called.  \<^verbatim>\<open>setup.py\<close> and \<^verbatim>\<open>codeenigma_runtime.pyx\<close> were written before
  the compile; with the Poetry bundler, and a compiler that leaves the two files alone,
  they are still there with that content when \<^verbatim>\<open>build\<close> has raised.
\<close>

theorem build_compile_failure_keeps_sources:
  assumes "fst (build_write_sources sys b out w) = Inr ()"
      and "fst (create_extension (bundler b) out None (snd (build_write_sources sys b out w)))
             = Inl e"
  shows "build sys b out w =
           (Inl e, snd (create_extension (bundler b) out None
                          (snd (build_write_sources sys b out w))))
       \<and> (\<forall>cw. build sys (b\<lparr>bundler := (bundler b)\<lparr>create_wheel := cw\<rparr>\<rparr>) out w
                = build sys b out w)
       \<and> node_at (files (snd (build_write_sources sys b out w))) (joinpath out ''setup.py'')
           = Some (File (safe_substitute sys (setup_py_template sys)
                           [(''version'', repr sys (version sys))]))
       \<and> node_at (files (snd (build_write_sources sys b out w)))
             (joinpath out ''codeenigma_runtime.pyx'')
           = Some (File (runtime_source b))
       \<and> (bundler b = poetry_bundler sys
            \<and> process_keeps sys (joinpath out ''setup.py'')
            \<and> process_keeps sys (joinpath out ''codeenigma_runtime.pyx'')
          \<longrightarrow> node_at (files (snd (build sys b out w))) (joinpath out ''setup.py'')
                = Some (File (safe_substitute sys (setup_py_template sys)
                                [(''version'', repr sys (version sys))]))
            \<and> node_at (files (snd (build sys b out w))) (joinpath out ''codeenigma_runtime.pyx'')
                = Some (File (runtime_source b)))"
proof -
  let ?w1 = "snd (build_write_sources sys b out w)"
  let ?w2 = "snd (create_extension (bundler b) out None ?w1)"
  have compile: "build_compile sys b out w = (Inl e, ?w2)"
    using assms(2)
    by (simp add: build_compile_def and_then_ok [where m = "build_write_sources sys b out",
          OF assms(1)] io_result)
  have result: "build sys b out w = (Inl e, ?w2)"
    using build_compile_failure [of sys b out w e] compile by simp
  have wheel: "build sys (b\<lparr>bundler := (bundler b)\<lparr>create_wheel := cw\<rparr>\<rparr>) out w
                 = build sys b out w" for cw
  proof -
    have "fst (build_compile sys (b\<lparr>bundler := (bundler b)\<lparr>create_wheel := cw\<rparr>\<rparr>) out w)
            = Inl e"
      using compile by (simp add: build_compile_create_wheel)
    then show ?thesis
      using build_compile_failure
              [of sys "b\<lparr>bundler := (bundler b)\<lparr>create_wheel := cw\<rparr>\<rparr>" out w e]
      by (simp add: build_compile_create_wheel result compile)
  qed
  note written = build_write_sources_files [OF assms(1)]
  have kept: "node_at (files (snd (build sys b out w))) q = node_at (files ?w1) q"
    if "bundler b = poetry_bundler sys" and "process_keeps sys q" for q
  proof -
    have ce: "create_extension (bundler b) = poetry_create_extension sys"
      using that(1) by (simp add: poetry_bundler_def)
    have "fst (poetry_create_extension sys out None ?w1) = Inl e"
      using assms(2) ce by simp
    from poetry_create_extension_failure_keeps [OF that(2) this]
    show ?thesis
      by (simp add: result ce)
  qed
  show ?thesis
    using result wheel written kept by simp
qed

theorem build_compile_failure_witness:
  "fst (build_write_sources ex_failing_system (ex_poetry_builder ex_failing_system) [''cedist'']
          ex_world) = Inr ()
   \<and> fst (create_extension (bundler (ex_poetry_builder ex_failing_system)) [''cedist''] None
            (snd (build_write_sources ex_failing_system (ex_poetry_builder ex_failing_system)
                    [''cedist''] ex_world))) = Inl CalledProcessError
   \<and> process_keeps ex_failing_system [''cedist'', ''setup.py'']
   \<and> process_keeps ex_failing_system [''cedist'', ''codeenigma_runtime.pyx'']
   \<and> fst (build ex_failing_system (ex_poetry_builder ex_failing_system) [''cedist''] ex_world)
       = Inl CalledProcessError
   \<and> node_at (files (snd (build ex_failing_system (ex_poetry_builder ex_failing_system)
                             [''cedist''] ex_world))) [''cedist'', ''setup.py'']
       = Some (File ''setup(version=$version)'')
   \<and> node_at (files (snd (build ex_failing_system (ex_poetry_builder ex_failing_system)
                             [''cedist''] ex_world))) [''cedist'', ''codeenigma_runtime.pyx'']
       = Some (File ''def run(): pass;guard_a();guard_b();'')"
proof -
  let ?b = "ex_poetry_builder ex_failing_system"
  have h1: "fst (build_write_sources ex_failing_system ?b [''cedist''] ex_world) = Inr ()"
    by code_simp
  have h2: "fst (create_extension (bundler ?b) [''cedist''] None
                   (snd (build_write_sources ex_failing_system ?b [''cedist''] ex_world)))
              = Inl CalledProcessError"
    by code_simp
  have k: "process_keeps ex_failing_system q" for q
    by (simp add: process_keeps_def ex_failing_system_def)
  have jp: "joinpath [''cedist''] ''setup.py'' = [''cedist'', ''setup.py'']"
           "joinpath [''cedist''] ''codeenigma_runtime.pyx'' = [''cedist'', ''codeenigma_runtime.pyx'']"
    by (simp_all add: joinpath_def)
  have pb: "bundler ?b = poetry_bundler ex_failing_system"
    by (simp add: ex_poetry_builder_def)
  have tpl: "safe_substitute ex_failing_system (setup_py_template ex_failing_system)
               [(''version'', repr ex_failing_system (version ex_failing_system))]
             = ''setup(version=$version)''"
    by (simp add: ex_failing_system_def ex_system_def)
  have src: "runtime_source ?b = ''def run(): pass;guard_a();guard_b();''"
    by (simp add: runtime_source_def ex_poetry_builder_def)
  note t = build_compile_failure_keeps_sources [OF h1 h2, unfolded jp tpl src]
  have r: "fst (build ex_failing_system ?b [''cedist''] ex_world) = Inl CalledProcessError"
    using t by simp
  have f: "node_at (files (snd (build ex_failing_system ?b [''cedist''] ex_world)))
             [''cedist'', ''setup.py''] = Some (File ''setup(version=$version)'')
         \<and> node_at (files (snd (build ex_failing_system ?b [''cedist''] ex_world)))
             [''cedist'', ''codeenigma_runtime.pyx'']
            = Some (File ''def run(): pass;guard_a();guard_b();'')"
    using t pb k by blast
  show ?thesis
    using h1 h2 k r f by blast
qed

subsection \<open>Cleaning up after a successful compile\<close>

lemma subprocess_run_command_keeps:
  assumes "command_keeps sys cmd q"
  shows "node_at (files (snd (subprocess_run sys cmd cwd w))) q = node_at (files w) q"
proof -
  have "node_at (snd (run_process sys cmd cwd (files w))) q = node_at (files w) q"
    using assms by (simp add: command_keeps_def)
  then show ?thesis
    by (cases "run_process sys cmd cwd (files w)")
       (auto simp: subprocess_run_def Let_def split: proc_result.splits)
qed

lemma unlink_each_effect:
  "list_all (\<lambda>n. node_at (files w) (joinpath d n) \<noteq> Some Dir) ns \<Longrightarrow>
   unlink_each d ns w =
     (Inr (), w\<lparr>files := files (snd (unlink_each d ns w))\<rparr>)
   \<and> (\<forall>q. node_at (files (snd (unlink_each d ns w))) q =
            (if q \<in> set (map (joinpath d) ns) then None else node_at (files w) q))"
proof (induction ns arbitrary: w)
  case Nil
  then show ?case by (simp add: ret_def)
next
  case (Cons n ns)
  from Cons.prems have nd: "node_at (files w) (joinpath d n) \<noteq> Some Dir"
    by simp
  then obtain t' where u: "unlink (files w) (joinpath d n) = Inr t'"
    using unlink_ok by blast
  let ?w' = "w\<lparr>files := t'\<rparr>"
  have at: "node_at t' q = (if q = joinpath d n then None else node_at (files w) q)" for q
    using u by (rule unlink_node_at)
  have step: "unlink_each d (n # ns) w = unlink_each d ns ?w'"
    using u by (simp add: and_then_def fs_do_def)
  have "list_all (\<lambda>m. node_at (files ?w') (joinpath d m) \<noteq> Some Dir) ns"
    using Cons.prems by (auto simp: list_all_iff at)
  from Cons.IH [OF this] have
    ok: "unlink_each d ns ?w' = (Inr (), ?w'\<lparr>files := files (snd (unlink_each d ns ?w'))\<rparr>)"
    and eff: "\<And>q. node_at (files (snd (unlink_each d ns ?w'))) q =
                (if q \<in> set (map (joinpath d) ns) then None else node_at (files ?w') q)"
    by blast+
  have "unlink_each d (n # ns) w
          = (Inr (), w\<lparr>files := files (snd (unlink_each d (n # ns) w))\<rparr>)"
    unfolding step using ok by (metis (no_types, lifting) snd_conv world.surjective
        world.update_convs(1) world.select_convs(1))
  moreover have "node_at (files (snd (unlink_each d (n # ns) w))) q =
            (if q \<in> set (map (joinpath d) (n # ns)) then None else node_at (files w) q)" for q
    unfolding step using eff [of q] by (auto simp: at)
  ultimately show ?case by blast
qed

lemma build_cleanup_effect:
  assumes "list_all (\<lambda>n. node_at (files w) (joinpath d n) \<noteq> Some Dir) temp_files"
  shows "build_cleanup d w =
           (Inr (), w\<lparr>files := rmdir_suppressed (files (snd (unlink_each d temp_files w)))
                                  (joinpath d ''build'')\<rparr>)"
proof -
  from unlink_each_effect [OF assms]
  have ok: "unlink_each d temp_files w
              = (Inr (), w\<lparr>files := files (snd (unlink_each d temp_files w))\<rparr>)"
    by blast
  obtain w' where w': "unlink_each d temp_files w = (Inr (), w')"
              and f: "w' = w\<lparr>files := files w'\<rparr>"
    using ok by (metis snd_conv)
  show ?thesis
    unfolding build_cleanup_def and_then_def w'
    by (simp, subst f, simp)
qed

lemma temp_files_nonempty: "n \<in> set temp_files \<Longrightarrow> n \<noteq> []"
  by (auto simp: temp_files_def)

lemma temp_file_apart:
  assumes "n \<in> set temp_files"
  shows "n \<noteq> ''codeenigma_runtime''" and "n \<noteq> ''pyproject.toml''" and "n \<noteq> ''build''"
  using assms by (auto simp: temp_files_def)

lemma fs_do_absent:
  assumes "node_at (files w) q = None"
      and "\<And>t'. f (files w) = Inr t' \<Longrightarrow> node_at t' q = None"
  shows "node_at (files (snd (fs_do f w))) q = None"
  using assms by (cases "f (files w)") (simp_all add: fs_do_def)

lemma and_then_absent:
  assumes "node_at (files w) q = None"
      and "\<And>w. node_at (files w) q = None \<Longrightarrow> node_at (files (snd (m w))) q = None"
      and "\<And>x w. node_at (files w) q = None \<Longrightarrow> node_at (files (snd (f x w))) q = None"
  shows "node_at (files (snd (and_then m f w))) q = None"
proof (cases "m w")
  case (Pair r w')
  have "node_at (files w') q = None"
    using assms(2) [OF assms(1)] Pair by simp
  then show ?thesis
    using Pair assms(3) by (cases r) (simp_all add: and_then_def)
qed

lemma write_text_absent:
  "write_text t p s = Inr t' \<Longrightarrow> q \<noteq> p \<Longrightarrow> node_at t q = None \<Longrightarrow> node_at t' q = None"
  by (simp add: write_text_node_at)

lemma mkdir_absent:
  "mkdir t p = Inr t' \<Longrightarrow> q \<noteq> p \<Longrightarrow> node_at t q = None \<Longrightarrow> node_at t' q = None"
  by (simp add: mkdir_node_at)

lemma build_package_files_absent:
  assumes "n \<in> set temp_files" and "node_at (files w) (joinpath out n) = None"
  shows "node_at (files (snd (build_package_files sys out mf w))) (joinpath out n) = None"
proof -
  let ?q = "joinpath out n"
  let ?crd = "joinpath out ''codeenigma_runtime''"
  have n: "n \<noteq> []" using assms(1) by (rule temp_files_nonempty)
  have q: "?q = out @ [n]" using n by (simp add: joinpath_def)
  have crd: "?crd = out @ [''codeenigma_runtime'']" by (simp add: joinpath_def)
  note apart = temp_file_apart [OF assms(1)]
  have d1: "?q \<noteq> ?crd" using apart by (simp add: q crd)
  have d2: "\<not> prefix ?q (joinpath ?crd (name mf))" "\<not> prefix (joinpath ?crd (name mf)) ?q"
    using apart n by (auto simp: q crd joinpath_def prefix_def)
  have d3: "?q \<noteq> joinpath ?crd ''__init__.py''" "?q \<noteq> joinpath ?crd ''codeenigma_runtime.pyi''"
    by (simp_all add: q crd joinpath_def)
  have d4: "?q \<noteq> joinpath out ''pyproject.toml''"
    using apart by (simp add: q joinpath_def)
  show ?thesis
    unfolding build_package_files_def Let_def create_init_file_def create_pyproject_toml_def
    using assms(2)
    by (intro and_then_absent fs_do_absent)
       (auto intro: mkdir_absent [OF _ d1] shutil_move_absent [OF _ _ d2]
                    write_text_absent [OF _ d3(1)] write_text_absent [OF _ d3(2)]
                    write_text_absent [OF _ d4])
qed

lemma fnmatch_literal:
  "CHR ''*'' \<notin> set lit \<Longrightarrow> fnmatch lit s = (s = lit)"
  by (induction lit s rule: fnmatch.induct) auto

lemma fnmatch_suffix:
  "CHR ''*'' \<notin> set lit \<Longrightarrow> fnmatch (p @ lit) s \<Longrightarrow> suffix lit s"
proof (induction p arbitrary: s)
  case Nil
  then show ?case by (simp add: fnmatch_literal)
next
  case (Cons c p)
  show ?case
  proof (cases "c = CHR ''*''")
    case False
    with Cons.prems obtain x s' where s: "s = x # s'" and m: "fnmatch (p @ lit) s'"
      by (cases s) auto
    from Cons.IH [OF Cons.prems(1) m] show ?thesis
      by (simp add: s suffix_Cons)
  next
    case True
    note outer = Cons.IH [OF Cons.prems(1)]
    from Cons.prems(2) show ?thesis
    proof (induction s)
      case Nil
      then have "fnmatch (p @ lit) []" using True by simp
      then show ?case by (rule outer)
    next
      case (Cons x s')
      then have "fnmatch (p @ lit) (x # s') \<or> fnmatch ((c # p) @ lit) s'"
        using True by simp
      then show ?case
      proof
        assume "fnmatch (p @ lit) (x # s')"
        then show ?thesis by (rule outer)
      next
        assume "fnmatch ((c # p) @ lit) s'"
        from Cons.IH [OF this] show ?thesis by (simp add: suffix_Cons)
      qed
    qed
  qed
qed

lemma glob_member:
  "k \<in> set (glob t d pat) \<Longrightarrow> fnmatch pat (name k) \<and> k \<noteq> [] \<and> parent k = d"
  by (auto simp: glob_def children_def)

lemma last_item_member: "last_item xs = Inr x \<Longrightarrow> x \<in> set xs"
  by (auto simp: last_item_def split: if_splits)

lemma poetry_read_version_world: "snd (poetry_read_version sys p w) = w"
  by (auto simp: poetry_read_version_def io_defs split: sum.splits toml_result.splits)

lemma poetry_remove_readme_absent:
  assumes "node_at (files w) q = None" and "q \<noteq> p"
  shows "node_at (files (snd (poetry_remove_readme_before_build sys p w))) q = None"
  unfolding poetry_remove_readme_before_build_def write_text_mode_def
  using assms(1)
  by (intro and_then_absent fs_do_absent)
     (auto simp: fs_get_def intro: write_text_absent [OF _ assms(2)] split: sum.splits)

lemma poetry_build_wheel_absent:
  assumes n: "n \<in> set temp_files"
      and keeps: "command_keeps sys [''poetry'', ''build'', ''-f'', ''wheel''] (joinpath out n)"
      and absent: "node_at (files w) (joinpath out n) = None"
  shows "node_at (files (snd (poetry_build_wheel sys mp (Some out) ver w))) (joinpath out n) = None"
proof -
  let ?q = "joinpath out n"
  let ?run = "subprocess_run sys [''poetry'', ''build'', ''-f'', ''wheel''] (parent mp)"
  let ?pat = "''*'' @ ver @ ''*.whl''"
  have nn: "n \<noteq> []" using n by (rule temp_files_nonempty)
  have q: "?q = out @ [n]" using nn by (simp add: joinpath_def)
  obtain r1 w1 where run: "?run w = (r1, w1)" by (cases "?run w")
  have a1: "node_at (files w1) ?q = None"
    using subprocess_run_command_keeps [OF keeps, of "parent mp" w] run absent
    by simp
  show ?thesis
  proof (cases r1)
    case (Inl e)
    then show ?thesis
      using run a1 by (simp add: poetry_build_wheel_def and_then_def)
  next
    case (Inr u)
    show ?thesis
    proof (cases "last_item (glob (files w1) (joinpath (parent mp) ''dist'') ?pat)")
      case (Inl e)
      then show ?thesis
        using run Inr a1 by (simp add: poetry_build_wheel_def and_then_def fs_get_def)
    next
      case found: (Inr wheel_file)
      from last_item_member [OF found] glob_member
      have m: "fnmatch ?pat (name wheel_file)" by blast
      have "fnmatch ((''*'' @ ver @ ''*'') @ ''.whl'') (name wheel_file)"
        using m by simp
      then have suf: "suffix ''.whl'' (name wheel_file)"
        by (intro fnmatch_suffix [where p = "''*'' @ ver @ ''*''"]) auto
      have diff: "name wheel_file \<noteq> n" "name wheel_file \<noteq> []"
        using suf n by (auto simp: temp_files_def suffix_def)
      have d1: "?q \<noteq> out" by (simp add: q)
      have d2: "\<not> prefix ?q (joinpath out (name wheel_file))"
               "\<not> prefix (joinpath out (name wheel_file)) ?q"
        using diff nn by (auto simp: q joinpath_def prefix_def)
      have rest: "node_at (files (snd (
          and_then (fs_do (\<lambda>t. mkdir t out)) (\<lambda>u.
          and_then (fs_do (\<lambda>t. shutil_move t wheel_file (joinpath out (name wheel_file)))) (\<lambda>u.
            ret (Some (joinpath out (name wheel_file))))) w1))) ?q = None"
        using a1
        by (intro and_then_absent fs_do_absent)
           (auto simp: ret_def intro: mkdir_absent [OF _ d1] shutil_move_absent [OF _ _ d2])
      show ?thesis
        using run Inr found rest
        by (simp add: poetry_build_wheel_def and_then_def fs_get_def)
    qed
  qed
qed

lemma poetry_create_wheel_absent:
  assumes n: "n \<in> set temp_files"
      and keeps: "command_keeps sys [''poetry'', ''build'', ''-f'', ''wheel''] (joinpath out n)"
      and absent: "node_at (files w) (joinpath out n) = None"
  shows "node_at (files (snd (poetry_create_wheel sys (joinpath out ''codeenigma_runtime'')
                                (Some out) rr w))) (joinpath out n) = None"
proof -
  let ?q = "joinpath out n"
  let ?pp = "joinpath (parent (joinpath out ''codeenigma_runtime'')) ''pyproject.toml''"
  have nn: "n \<noteq> []" using n by (rule temp_files_nonempty)
  have "?pp = out @ [''pyproject.toml'']"
    by (simp add: joinpath_def parent_def)
  then have d: "?q \<noteq> ?pp"
    using temp_file_apart(2) [OF n] nn by (simp add: joinpath_def)
  show ?thesis
    unfolding poetry_create_wheel_def Let_def
    using absent
    by (intro and_then_absent)
       (auto simp: poetry_read_version_world ret_def
             intro: poetry_remove_readme_absent [OF _ d] poetry_build_wheel_absent [OF n keeps])
qed

text \<open>The cleanup and the packaging, in terms of the list the cleanup loop runs
  over.\<close>

lemma build_cleanup_temp_files:
  assumes "fst (build_compile sys b out w) = Inr mf"
      and "list_all (\<lambda>n. node_at (files (snd (build_compile sys b out w))) (joinpath out n) \<noteq> Some Dir) temp_files"
  shows "fst (build_cleanup out (snd (build_compile sys b out w))) = Inr ()
       \<and> build sys b out w = build_package sys b out mf (snd (build_cleanup out (snd (build_compile sys b out w))))
       \<and> list_all (\<lambda>n. node_at (files (snd (build_cleanup out (snd (build_compile sys b out w))))) (joinpath out n) = None) temp_files
       \<and> (\<forall>q. q \<notin> set (map (joinpath out) temp_files) \<and> q \<noteq> joinpath out ''build'' \<longrightarrow>
              node_at (files (snd (build_cleanup out (snd (build_compile sys b out w))))) q = node_at (files (snd (build_compile sys b out w))) q)
       \<and> (\<forall>q s. q \<notin> set (map (joinpath out) temp_files)
                \<and> node_at (files (snd (build_compile sys b out w))) q = Some (File s) \<longrightarrow>
              node_at (files (snd (build_cleanup out (snd (build_compile sys b out w))))) q = Some (File s))
       \<and> procs (snd (build_cleanup out (snd (build_compile sys b out w)))) = procs (snd (build_compile sys b out w))
       \<and> environ (snd (build_cleanup out (snd (build_compile sys b out w)))) = environ (snd (build_compile sys b out w))
       \<and> list_all (\<lambda>n. node_at (files (snd (build_package_files sys out mf (snd (build_cleanup out (snd (build_compile sys b out w))))))) (joinpath out n) = None) temp_files
       \<and> snd (build sys b out w) =
           (case fst (build_package_files sys out mf (snd (build_cleanup out (snd (build_compile sys b out w))))) of
              Inl e \<Rightarrow> snd (build_package_files sys out mf (snd (build_cleanup out (snd (build_compile sys b out w)))))
            | Inr u \<Rightarrow> snd (create_wheel (bundler b) (joinpath out ''codeenigma_runtime'') (Some out) (snd (build_package_files sys out mf (snd (build_cleanup out (snd (build_compile sys b out w))))))))
       \<and> (bundler b = poetry_bundler sys
            \<and> list_all (\<lambda>n. command_keeps sys [''poetry'', ''build'', ''-f'', ''wheel''] (joinpath out n)) temp_files \<longrightarrow>
          list_all (\<lambda>n. node_at (files (snd (build sys b out w))) (joinpath out n) = None)
            temp_files)"
proof -
  obtain w2 where compile: "build_compile sys b out w = (Inr mf, w2)"
    using assms(1) by (cases "build_compile sys b out w") auto
  have w2: "snd (build_compile sys b out w) = w2"
    by (simp add: compile)
  let ?u = "snd (unlink_each out temp_files w2)"
  let ?w3 = "w2\<lparr>files := rmdir_suppressed (files ?u) (joinpath out ''build'')\<rparr>"
  let ?P = "build_package_files sys out mf ?w3"
  let ?crd = "joinpath out ''codeenigma_runtime''"
  have nodirs: "list_all (\<lambda>n. node_at (files w2) (joinpath out n) \<noteq> Some Dir) temp_files"
    using assms(2) by (simp add: w2)
  have cleanup: "build_cleanup out w2 = (Inr (), ?w3)"
    using nodirs by (rule build_cleanup_effect)
  have w3: "snd (build_cleanup out w2) = ?w3"
    by (simp add: cleanup)
  have unlinked: "node_at (files ?u) q =
      (if q \<in> set (map (joinpath out) temp_files) then None else node_at (files w2) q)" for q
    using unlink_each_effect [OF nodirs] by blast
  have c1: "fst (build_cleanup out w2) = Inr ()"
    by (simp add: cleanup)
  have c2: "build sys b out w = build_package sys b out mf ?w3"
    by (simp add: build_def and_then_def compile cleanup)
  have absent3: "node_at (files ?w3) (joinpath out n) = None" if "n \<in> set temp_files" for n
    using that by (simp add: rmdir_suppressed_absent unlinked)
  have c3: "list_all (\<lambda>n. node_at (files ?w3) (joinpath out n) = None) temp_files"
    using absent3 by (simp add: list_all_iff)
  have c4: "node_at (files ?w3) q = node_at (files w2) q"
    if "q \<notin> set (map (joinpath out) temp_files) \<and> q \<noteq> joinpath out ''build''" for q
    using that by (simp add: rmdir_suppressed_other unlinked)
  have c5: "node_at (files ?w3) q = Some (File s)"
    if "q \<notin> set (map (joinpath out) temp_files) \<and> node_at (files w2) q = Some (File s)"
    for q s
    using that by (simp add: rmdir_suppressed_file unlinked)
  have absentP: "node_at (files (snd ?P)) (joinpath out n) = None"
    if "n \<in> set temp_files" for n
    using that absent3 [OF that] by (rule build_package_files_absent)
  have c8: "list_all (\<lambda>n. node_at (files (snd ?P)) (joinpath out n) = None) temp_files"
    using absentP by (simp add: list_all_iff)
  have c9: "snd (build sys b out w) =
           (case fst ?P of
              Inl e \<Rightarrow> snd ?P
            | Inr u \<Rightarrow> snd (create_wheel (bundler b) ?crd (Some out) (snd ?P)))"
    unfolding c2 build_package_def
    by (cases ?P) (auto simp: and_then_def ret_def split: sum.splits prod.splits)
  have c10: "list_all (\<lambda>n. node_at (files (snd (build sys b out w))) (joinpath out n) = None)
               temp_files"
    if "bundler b = poetry_bundler sys
        \<and> list_all (\<lambda>n. command_keeps sys [''poetry'', ''build'', ''-f'', ''wheel''] (joinpath out n)) temp_files"
  proof -
    have cw: "create_wheel (bundler b) ?crd (Some out)
                = poetry_create_wheel sys ?crd (Some out) None"
      using that by (simp add: poetry_bundler_def)
    have "node_at (files (snd (build sys b out w))) (joinpath out n) = None"
      if n: "n \<in> set temp_files" for n
    proof (cases "fst ?P")
      case (Inl e)
      then show ?thesis using absentP [OF n] by (simp add: c9)
    next
      case (Inr u)
      have "command_keeps sys [''poetry'', ''build'', ''-f'', ''wheel''] (joinpath out n)"
        using \<open>bundler b = poetry_bundler sys \<and> _\<close> n by (simp add: list_all_iff)
      from poetry_create_wheel_absent [OF n this absentP [OF n]] show ?thesis
        using Inr by (simp add: c9 cw)
    qed
    then show ?thesis by (simp add: list_all_iff)
  qed
  show ?thesis
    unfolding w2 w3
    using c1 c2 c3 c4 c5 c8 c9 c10 by simp
qed

text \<open>
  C7.  When \<^verbatim>\<open>create_extension\<close> has returned (and none of the three names is a
  directory), the cleanup succeeds and \<^verbatim>\<open>build\<close> goes on to packaging in a world where
  \<^verbatim>\<open>setup.py\<close>, \<^verbatim>\<open>codeenigma_runtime.pyx\<close> and \<^verbatim>\<open>codeenigma_runtime.c\<close> are absent from
  the output directory.  Every other path is as the compile left it, except that an
  empty \<^verbatim>\<open>build\<close> directory is removed; in particular every other file keeps its
  content, and the subprocess log and the environment are untouched.  Steps 3 and 4 of
  the packaging do not bring the three files back, whether they succeed or fail, and
  the world \<^verbatim>\<open>build\<close> ends in is the one where they stopped or the one \<^verbatim>\<open>create_wheel\<close>
  made of it.  With the Poetry bundler, whose wheel command leaves the three paths
  alone, they are absent when \<^verbatim>\<open>build\<close> ends, on success and on failure.
\<close>

theorem build_cleanup_removes_intermediates:
  assumes "fst (build_compile sys b out w) = Inr mf"
      and "node_at (files (snd (build_compile sys b out w))) (joinpath out ''setup.py'') \<noteq> Some Dir"
      and "node_at (files (snd (build_compile sys b out w))) (joinpath out ''codeenigma_runtime.pyx'')
             \<noteq> Some Dir"
      and "node_at (files (snd (build_compile sys b out w))) (joinpath out ''codeenigma_runtime.c'')
             \<noteq> Some Dir"
  shows "fst (build_cleanup out (snd (build_compile sys b out w))) = Inr ()
       \<and> build sys b out w = build_package sys b out mf (snd (build_cleanup out (snd (build_compile sys b out w))))
       \<and> node_at (files (snd (build_cleanup out (snd (build_compile sys b out w))))) (joinpath out ''setup.py'') = None
       \<and> node_at (files (snd (build_cleanup out (snd (build_compile sys b out w))))) (joinpath out ''codeenigma_runtime.pyx'') = None
       \<and> node_at (files (snd (build_cleanup out (snd (build_compile sys b out w))))) (joinpath out ''codeenigma_runtime.c'') = None
       \<and> (\<forall>q. q \<noteq> joinpath out ''setup.py'' \<and> q \<noteq> joinpath out ''codeenigma_runtime.pyx'' \<and> q \<noteq> joinpath out ''codeenigma_runtime.c'' \<and> q \<noteq> joinpath out ''build'' \<longrightarrow>
              node_at (files (snd (build_cleanup out (snd (build_compile sys b out w))))) q = node_at (files (snd (build_compile sys b out w))) q)
       \<and> (\<forall>q s. q \<noteq> joinpath out ''setup.py'' \<and> q \<noteq> joinpath out ''codeenigma_runtime.pyx'' \<and> q \<noteq> joinpath out ''codeenigma_runtime.c''
                \<and> node_at (files (snd (build_compile sys b out w))) q = Some (File s) \<longrightarrow>
              node_at (files (snd (build_cleanup out (snd (build_compile sys b out w))))) q = Some (File s))
       \<and> procs (snd (build_cleanup out (snd (build_compile sys b out w)))) = procs (snd (build_compile sys b out w))
       \<and> environ (snd (build_cleanup out (snd (build_compile sys b out w)))) = environ (snd (build_compile sys b out w))
       \<and> node_at (files (snd (build_package_files sys out mf (snd (build_cleanup out (snd (build_compile sys b out w))))))) (joinpath out ''setup.py'') = None
       \<and> node_at (files (snd (build_package_files sys out mf (snd (build_cleanup out (snd (build_compile sys b out w))))))) (joinpath out ''codeenigma_runtime.pyx'') = None
       \<and> node_at (files (snd (build_package_files sys out mf (snd (build_cleanup out (snd (build_compile sys b out w))))))) (joinpath out ''codeenigma_runtime.c'') = None
       \<and> snd (build sys b out w) =
           (case fst (build_package_files sys out mf (snd (build_cleanup out (snd (build_compile sys b out w))))) of
              Inl e \<Rightarrow> snd (build_package_files sys out mf (snd (build_cleanup out (snd (build_compile sys b out w)))))
            | Inr u \<Rightarrow> snd (create_wheel (bundler b) (joinpath out ''codeenigma_runtime'') (Some out) (snd (build_package_files sys out mf (snd (build_cleanup out (snd (build_compile sys b out w))))))))
       \<and> (bundler b = poetry_bundler sys
            \<and> command_keeps sys [''poetry'', ''build'', ''-f'', ''wheel''] (joinpath out ''setup.py'')
            \<and> command_keeps sys [''poetry'', ''build'', ''-f'', ''wheel''] (joinpath out ''codeenigma_runtime.pyx'')
            \<and> command_keeps sys [''poetry'', ''build'', ''-f'', ''wheel''] (joinpath out ''codeenigma_runtime.c'') \<longrightarrow>
          node_at (files (snd (build sys b out w))) (joinpath out ''setup.py'') = None
          \<and> node_at (files (snd (build sys b out w))) (joinpath out ''codeenigma_runtime.pyx'') = None
          \<and> node_at (files (snd (build sys b out w))) (joinpath out ''codeenigma_runtime.c'') = None)"
proof -
  have nodirs: "list_all (\<lambda>n. node_at (files (snd (build_compile sys b out w))) (joinpath out n)
                            \<noteq> Some Dir) temp_files"
    using assms(2,3,4) by (simp add: temp_files_def)
  note t = build_cleanup_temp_files [OF assms(1) nodirs]
  have names: "q \<notin> set (map (joinpath out) temp_files) \<longleftrightarrow>
                 q \<noteq> joinpath out ''setup.py'' \<and> q \<noteq> joinpath out ''codeenigma_runtime.pyx''
                 \<and> q \<noteq> joinpath out ''codeenigma_runtime.c''" for q
    by (auto simp: temp_files_def)
  have each: "list_all Q temp_files
                \<longleftrightarrow> Q ''setup.py'' \<and> Q ''codeenigma_runtime.pyx'' \<and> Q ''codeenigma_runtime.c''"
    for Q :: "string \<Rightarrow> bool"
    by (simp add: temp_files_def)
  note c1 = t [THEN conjunct1]
  note c2 = t [THEN conjunct2, THEN conjunct1]
  note c3 = t [THEN conjunct2, THEN conjunct2, THEN conjunct1, unfolded each]
  note r3 = t [THEN conjunct2, THEN conjunct2, THEN conjunct2]
  note c4 = r3 [THEN conjunct1, unfolded names]
  note c5 = r3 [THEN conjunct2, THEN conjunct1, unfolded names]
  note c6 = r3 [THEN conjunct2, THEN conjunct2, THEN conjunct1]
  note c7 = r3 [THEN conjunct2, THEN conjunct2, THEN conjunct2, THEN conjunct1]
  note r8 = r3 [THEN conjunct2, THEN conjunct2, THEN conjunct2, THEN conjunct2]
  note c8 = r8 [THEN conjunct1, unfolded each]
  note c9 = r8 [THEN conjunct2, THEN conjunct1]
  note c10 = r8 [THEN conjunct2, THEN conjunct2, unfolded each]
  show ?thesis
    using c1 c2 c3 c4 c5 c6 c7 c8 c9 c10 by blast
qed

theorem build_cleanup_witness:
  "fst (build_compile ex_system (ex_poetry_builder ex_system) [''cedist''] ex_exe_world)
     = Inr [''cedist'', ''codeenigma_runtime.so'']
   \<and> node_at (files (snd (build_compile ex_system (ex_poetry_builder ex_system) [''cedist''] ex_exe_world))) [''cedist'', ''setup.py'']
       = Some (File ''setup(version=$version)'')
   \<and> node_at (files (snd (build_compile ex_system (ex_poetry_builder ex_system) [''cedist''] ex_exe_world))) [''cedist'', ''codeenigma_runtime.pyx'']
       = Some (File ''def run(): pass;guard_a();guard_b();'')
   \<and> node_at (files (snd (build_compile ex_system (ex_poetry_builder ex_system) [''cedist''] ex_exe_world))) [''cedist'', ''codeenigma_runtime.c'']
       = Some (File ''/* C */'')
   \<and> command_keeps ex_system [''poetry'', ''build'', ''-f'', ''wheel''] [''cedist'', ''setup.py'']
   \<and> command_keeps ex_system [''poetry'', ''build'', ''-f'', ''wheel''] [''cedist'', ''codeenigma_runtime.pyx'']
   \<and> command_keeps ex_system [''poetry'', ''build'', ''-f'', ''wheel''] [''cedist'', ''codeenigma_runtime.c'']
   \<and> fst (build ex_system (ex_poetry_builder ex_system) [''cedist''] ex_exe_world) = Inr ()
   \<and> fst (build ex_system (ex_poetry_builder ex_system) [''cedist''] ex_world) = Inl CalledProcessError
   \<and> node_at (files (snd (build ex_system (ex_poetry_builder ex_system) [''cedist''] ex_exe_world))) [''cedist'', ''setup.py''] = None
   \<and> node_at (files (snd (build ex_system (ex_poetry_builder ex_system) [''cedist''] ex_exe_world))) [''cedist'', ''codeenigma_runtime.pyx''] = None
   \<and> node_at (files (snd (build ex_system (ex_poetry_builder ex_system) [''cedist''] ex_exe_world))) [''cedist'', ''codeenigma_runtime.c''] = None
   \<and> node_at (files (snd (build ex_system (ex_poetry_builder ex_system) [''cedist''] ex_world))) [''cedist'', ''setup.py''] = None
   \<and> node_at (files (snd (build ex_system (ex_poetry_builder ex_system) [''cedist''] ex_world))) [''cedist'', ''codeenigma_runtime.pyx''] = None
   \<and> node_at (files (snd (build ex_system (ex_poetry_builder ex_system) [''cedist''] ex_world))) [''cedist'', ''codeenigma_runtime.c''] = None
   \<and> node_at (files (snd (build ex_system (ex_poetry_builder ex_system) [''cedist''] ex_exe_world)))
         [''cedist'', ''codeenigma_runtime'', ''codeenigma_runtime.so'']
       = Some (File ''ELF'')"
proof -
  let ?b = "ex_poetry_builder ex_system"
  have jp: "joinpath [''cedist''] ''setup.py'' = [''cedist'', ''setup.py'']"
           "joinpath [''cedist''] ''codeenigma_runtime.pyx'' = [''cedist'', ''codeenigma_runtime.pyx'']"
           "joinpath [''cedist''] ''codeenigma_runtime.c'' = [''cedist'', ''codeenigma_runtime.c'']"
    by (simp_all add: joinpath_def)
  have a1: "fst (build_compile ex_system ?b [''cedist''] ex_exe_world)
              = Inr [''cedist'', ''codeenigma_runtime.so'']"
    by code_simp
  have a2: "node_at (files (snd (build_compile ex_system (ex_poetry_builder ex_system) [''cedist''] ex_exe_world))) [''cedist'', ''setup.py'']
              = Some (File ''setup(version=$version)'')"
    by code_simp
  have a3: "node_at (files (snd (build_compile ex_system (ex_poetry_builder ex_system) [''cedist''] ex_exe_world))) [''cedist'', ''codeenigma_runtime.pyx'']
              = Some (File ''def run(): pass;guard_a();guard_b();'')"
    by code_simp
  have a4: "node_at (files (snd (build_compile ex_system (ex_poetry_builder ex_system) [''cedist''] ex_exe_world))) [''cedist'', ''codeenigma_runtime.c'']
              = Some (File ''/* C */'')"
    by code_simp
  have b1: "fst (build_compile ex_system ?b [''cedist''] ex_world)
              = Inr [''cedist'', ''codeenigma_runtime.so'']"
    by code_simp
  have b2: "node_at (files (snd (build_compile ex_system (ex_poetry_builder ex_system) [''cedist''] ex_world))) [''cedist'', ''setup.py'']
              = Some (File ''setup(version=$version)'')"
    by code_simp
  have b3: "node_at (files (snd (build_compile ex_system (ex_poetry_builder ex_system) [''cedist''] ex_world))) [''cedist'', ''codeenigma_runtime.pyx'']
              = Some (File ''def run(): pass;guard_a();guard_b();'')"
    by code_simp
  have b4: "node_at (files (snd (build_compile ex_system (ex_poetry_builder ex_system) [''cedist''] ex_world))) [''cedist'', ''codeenigma_runtime.c'']
              = Some (File ''/* C */'')"
    by code_simp
  have k: "command_keeps ex_system [''poetry'', ''build'', ''-f'', ''wheel''] q" for q
    by (simp add: command_keeps_def ex_system_def ex_compile_def)
  have pb: "bundler ?b = poetry_bundler ex_system"
    by (simp add: ex_poetry_builder_def)
  have nd: "x = Some (File s) \<Longrightarrow> x \<noteq> Some Dir" for x :: "node option" and s
    by simp
  note t1 = build_cleanup_removes_intermediates
              [of ex_system ?b "[''cedist'']" ex_exe_world, unfolded jp,
               OF a1 nd [OF a2] nd [OF a3] nd [OF a4]]
  note t2 = build_cleanup_removes_intermediates
              [of ex_system ?b "[''cedist'']" ex_world, unfolded jp,
               OF b1 nd [OF b2] nd [OF b3] nd [OF b4]]
  have r1: "node_at (files (snd (build ex_system (ex_poetry_builder ex_system) [''cedist''] ex_exe_world))) [''cedist'', ''setup.py''] = None
          \<and> node_at (files (snd (build ex_system (ex_poetry_builder ex_system) [''cedist''] ex_exe_world))) [''cedist'', ''codeenigma_runtime.pyx''] = None
          \<and> node_at (files (snd (build ex_system (ex_poetry_builder ex_system) [''cedist''] ex_exe_world))) [''cedist'', ''codeenigma_runtime.c''] = None"
    using t1 pb k by blast
  have r2: "node_at (files (snd (build ex_system (ex_poetry_builder ex_system) [''cedist''] ex_world))) [''cedist'', ''setup.py''] = None
          \<and> node_at (files (snd (build ex_system (ex_poetry_builder ex_system) [''cedist''] ex_world))) [''cedist'', ''codeenigma_runtime.pyx''] = None
          \<and> node_at (files (snd (build ex_system (ex_poetry_builder ex_system) [''cedist''] ex_world))) [''cedist'', ''codeenigma_runtime.c''] = None"
    using t2 pb k by blast
  have s1: "fst (build ex_system ?b [''cedist''] ex_exe_world) = Inr ()"
    by code_simp
  have s2: "fst (build ex_system ?b [''cedist''] ex_world) = Inl CalledProcessError"
    by code_simp
  have s3: "node_at (files (snd (build ex_system (ex_poetry_builder ex_system) [''cedist''] ex_exe_world)))
              [''cedist'', ''codeenigma_runtime'', ''codeenigma_runtime.so''] = Some (File ''ELF'')"
    by code_simp
  show ?thesis
    using a1 a2 a3 a4 k s1 s2 r1 r2 s3 by blast
qed

subsection \<open>Merged packaging in the build command\<close>

text \<open>
  C4.  The code takes \<^verbatim>\<open>module_name\<close> from the parent of the module path, not from the
  module path.  For the module directory \<^verbatim>\<open>proj/myapp\<close> the stub under
  \<^verbatim>\<open>cedist/myapp\<close> keeps its import of \<^verbatim>\<open>codeenigma_runtime\<close>, a file under
  \<^verbatim>\<open>cedist/proj\<close> is rewritten to import \<^verbatim>\<open>proj.codeenigma_runtime\<close>, and the runtime
  package is moved to \<^verbatim>\<open>cedist/proj/codeenigma_runtime\<close>, not into \<^verbatim>\<open>cedist/myapp\<close>.
\<close>

theorem merge_runtime_uses_parent_name:
  "is_dir (files ex_dist_world) [''proj'', ''myapp'']
   \<and> name [''proj'', ''myapp''] = ''myapp''
   \<and> fst (merge_runtime [''proj'', ''myapp''] [''cedist''] ex_dist_world) = Inr ()
   \<and> node_at (files (snd (merge_runtime [''proj'', ''myapp''] [''cedist''] ex_dist_world)))
         [''cedist'', ''myapp'', ''app.py'']
       = Some (File ''from codeenigma_runtime import execute_secure_code'')
   \<and> node_at (files (snd (merge_runtime [''proj'', ''myapp''] [''cedist''] ex_dist_world)))
         [''cedist'', ''proj'', ''tool.py'']
       = Some (File ''from proj.codeenigma_runtime import execute_secure_code'')
   \<and> node_at (files (snd (merge_runtime [''proj'', ''myapp''] [''cedist''] ex_dist_world)))
         [''cedist'', ''proj'', ''codeenigma_runtime'', ''__init__.py'']
       = Some (File ''PLATFORM'')
   \<and> node_at (files (snd (merge_runtime [''proj'', ''myapp''] [''cedist''] ex_dist_world)))
         [''cedist'', ''myapp'', ''codeenigma_runtime'']
       = None
   \<and> node_at (files (snd (merge_runtime [''proj'', ''myapp''] [''cedist''] ex_dist_world)))
         [''cedist'', ''codeenigma_runtime'']
       = None"
  by code_simp

lemma rewrite_each_effect:
  assumes "distinct ps"
      and "list_all (\<lambda>p. case node_at (files w) p of Some (File s) \<Rightarrow> True | _ \<Rightarrow> False) ps"
  shows "fst (rewrite_each old new ps w) = Inr ()
       \<and> (\<forall>q s. q \<in> set ps \<and> node_at (files w) q = Some (File s) \<longrightarrow>
              node_at (files (snd (rewrite_each old new ps w))) q
                = Some (File (replace old new s)))
       \<and> (\<forall>q. q \<notin> set ps \<longrightarrow>
              node_at (files (snd (rewrite_each old new ps w))) q = node_at (files w) q)"
  using assms
proof (induction ps arbitrary: w)
  case Nil
  then show ?case by (simp add: ret_def)
next
  case (Cons p ps)
  from Cons.prems(2) obtain s where s: "node_at (files w) p = Some (File s)"
    by (auto split: option.splits node.splits)
  then have pne: "p \<noteq> []" by (rule node_at_File_nonempty)
  let ?w' = "w\<lparr>files := AList.update p (File (replace old new s)) (files w)\<rparr>"
  have step: "rewrite_each old new (p # ps) w = rewrite_each old new ps ?w'"
    using s by (simp add: io_defs read_text_def write_text_def)
  have at: "node_at (AList.update p (File (replace old new s)) (files w)) q
              = (if q = p then Some (File (replace old new s)) else node_at (files w) q)" for q
    using pne by (simp add: node_at_update)
  have d: "distinct ps" and notin: "p \<notin> set ps"
    using Cons.prems(1) by simp_all
  have "list_all (\<lambda>p. case node_at (files ?w') p of Some (File s) \<Rightarrow> True | _ \<Rightarrow> False) ps"
    using Cons.prems(2) notin pne by (auto simp: list_all_iff node_at_update)
  from Cons.IH [OF d this]
  have ok: "fst (rewrite_each old new ps ?w') = Inr ()"
   and inside: "\<And>q s. q \<in> set ps \<Longrightarrow> node_at (files ?w') q = Some (File s) \<Longrightarrow>
                  node_at (files (snd (rewrite_each old new ps ?w'))) q
                    = Some (File (replace old new s))"
   and outside: "\<And>q. q \<notin> set ps \<Longrightarrow>
                  node_at (files (snd (rewrite_each old new ps ?w'))) q = node_at (files ?w') q"
    by blast+
  let ?end = "files (snd (rewrite_each old new ps ?w'))"
  have c2: "node_at ?end q = Some (File (replace old new s'))"
    if "q \<in> set (p # ps)" and "node_at (files w) q = Some (File s')" for q s'
  proof (cases "q = p")
    case True
    with that(2) s have "s' = s" by simp
    moreover have "node_at ?end p = node_at (files ?w') p"
      using notin by (rule outside)
    ultimately show ?thesis
      using True by (simp add: at)
  next
    case False
    with that have "q \<in> set ps" and "node_at (files ?w') q = Some (File s')"
      by (simp_all add: at)
    then show ?thesis by (rule inside)
  qed
  have c3: "node_at ?end q = node_at (files w) q" if "q \<notin> set (p # ps)" for q
  proof -
    from that have "q \<notin> set ps" and "q \<noteq> p" by simp_all
    then show ?thesis
      using outside [of q] by (simp add: at)
  qed
  show ?case
    unfolding step using ok c2 c3 by blast
qed

lemma rglob_member:
  "p \<in> set (rglob t d pat) \<longleftrightarrow>
     strict_prefix d p \<and> fnmatch pat (name p) \<and> map_of t p \<noteq> None"
  by (auto simp: rglob_def map_of_eq_None_iff)

lemma rglob_distinct: "distinct (rglob t d pat)"
  by (simp add: rglob_def)

text \<open>
  What the rewriting loop of the build command does, for every module path: when no
  directory below \<open>dist/module_name\<close> is named like a Python file, the loop succeeds,
  every \<^verbatim>\<open>.py\<close> file below that directory gets its text with \<open>old_text\<close> replaced by
  \<open>new_text module_name\<close>, and nothing else changes.  Here \<open>module_name\<close> is the name of
  the parent of the module path.
\<close>

lemma rewrite_imports_effect:
  assumes "list_all (\<lambda>p. node_at (files w) p \<noteq> Some Dir)
             (rglob (files w) (joinpath output_dir (name (parent module_path))) ''*.py'')"
  shows "fst (rewrite_each old_text (new_text (name (parent module_path)))
                (rglob (files w) (joinpath output_dir (name (parent module_path))) ''*.py'') w)
           = Inr ()
       \<and> (\<forall>q s. strict_prefix (joinpath output_dir (name (parent module_path))) q
                \<and> fnmatch ''*.py'' (name q) \<and> node_at (files w) q = Some (File s) \<longrightarrow>
              node_at (files (snd (rewrite_each old_text (new_text (name (parent module_path)))
                (rglob (files w) (joinpath output_dir (name (parent module_path))) ''*.py'') w))) q
                = Some (File (replace old_text (new_text (name (parent module_path))) s)))
       \<and> (\<forall>q. \<not> (strict_prefix (joinpath output_dir (name (parent module_path))) q
                   \<and> fnmatch ''*.py'' (name q)) \<longrightarrow>
              node_at (files (snd (rewrite_each old_text (new_text (name (parent module_path)))
                (rglob (files w) (joinpath output_dir (name (parent module_path))) ''*.py'') w))) q
                = node_at (files w) q)"
proof -
  let ?d = "joinpath output_dir (name (parent module_path))"
  let ?ps = "rglob (files w) ?d ''*.py''"
  have files_only:
    "list_all (\<lambda>p. case node_at (files w) p of Some (File s) \<Rightarrow> True | _ \<Rightarrow> False) ?ps"
    unfolding list_all_iff
  proof
    fix p assume p: "p \<in> set ?ps"
    then have "map_of (files w) p \<noteq> None" and "p \<noteq> []"
      by (auto simp: rglob_member)
    then have "node_at (files w) p \<noteq> None"
      by (simp add: node_at_def)
    moreover have "node_at (files w) p \<noteq> Some Dir"
      using assms p by (simp add: list_all_iff)
    ultimately show "case node_at (files w) p of Some (File s) \<Rightarrow> True | _ \<Rightarrow> False"
      by (auto split: option.splits node.splits)
  qed
  note e = rewrite_each_effect [OF rglob_distinct files_only,
             of old_text "new_text (name (parent module_path))"]
  have mem: "q \<in> set ?ps" if "strict_prefix ?d q" "fnmatch ''*.py'' (name q)"
                             "node_at (files w) q = Some (File s)" for q s
    using that by (auto simp: rglob_member node_at_def split: if_splits)
  have nonmem: "q \<notin> set ?ps" if "\<not> (strict_prefix ?d q \<and> fnmatch ''*.py'' (name q))" for q
    using that by (auto simp: rglob_member)
  show ?thesis
    using e mem nonmem by blast
qed

end
